theory Spec2Isabelle
  imports Main
begin

section \<open>Python primitives used by \<^verbatim>\<open>zookeeper_challenge.py\<close>\<close>

text \<open>
  Python strings are modelled as \<^typ>\<open>string\<close>, Python integers as \<^typ>\<open>int\<close>. A character is
  one of the code points U+0000 to U+00FF. Whitespace is that of Python on these code
  points. The case functions \<open>lower_char\<close> and \<open>upper_char\<close> are those of Python on ASCII
  only: a character outside ASCII counts as caseless. Exceptions are values of \<open>py_error\<close>.
  The interpreter's limit on the number of digits that \<^verbatim>\<open>int\<close> and \<^verbatim>\<open>str\<close> convert is not
  modelled.
\<close>

datatype py_error = IndexError | KeyError | ValueError

definition is_space :: "char \<Rightarrow> bool" where
  \<comment> \<open>\<^verbatim>\<open>str.isspace\<close> on one character: TAB, LF, VT, FF, CR, FS, GS, RS, US, space, and
      U+0085 and U+00A0.\<close>
  "is_space c =
     (let n = (of_char c :: int)
      in (9 \<le> n \<and> n \<le> 13) \<or> (28 \<le> n \<and> n \<le> 32) \<or> n = 133 \<or> n = 160)"

definition lower_char :: "char \<Rightarrow> char" where
  "lower_char c = (let n = (of_char c :: int) in if 65 \<le> n \<and> n \<le> 90 then char_of (n + 32) else c)"

definition upper_char :: "char \<Rightarrow> char" where
  "upper_char c = (let n = (of_char c :: int) in if 97 \<le> n \<and> n \<le> 122 then char_of (n - 32) else c)"

definition py_lower :: "string \<Rightarrow> string" where
  \<comment> \<open>\<^verbatim>\<open>s.lower()\<close>\<close>
  "py_lower s = map lower_char s"

fun py_capitalize :: "string \<Rightarrow> string" where
  \<comment> \<open>\<^verbatim>\<open>s.capitalize()\<close>: first character upper-cased, the others lower-cased.\<close>
  "py_capitalize [] = []"
| "py_capitalize (c # cs) = upper_char c # map lower_char cs"

definition py_strip :: "string \<Rightarrow> string" where
  \<comment> \<open>\<^verbatim>\<open>s.strip()\<close>\<close>
  "py_strip s = rev (dropWhile is_space (rev (dropWhile is_space s)))"

fun split_acc :: "string \<Rightarrow> string \<Rightarrow> string list" where
  "split_acc w [] = (if w = [] then [] else [rev w])"
| "split_acc w (c # cs) =
     (if is_space c then (if w = [] then split_acc [] cs else rev w # split_acc [] cs)
      else split_acc (c # w) cs)"

definition py_split :: "string \<Rightarrow> string list" where
  \<comment> \<open>\<^verbatim>\<open>s.split()\<close>: the maximal runs of non-space characters.\<close>
  "py_split s = split_acc [] s"

fun py_split_sep :: "char \<Rightarrow> string \<Rightarrow> string list" where
  \<comment> \<open>\<^verbatim>\<open>s.split(sep)\<close> for a separator of one character; empty pieces are kept.\<close>
  "py_split_sep sep [] = [[]]"
| "py_split_sep sep (c # cs) =
     (if c = sep then [] # py_split_sep sep cs
      else (case py_split_sep sep cs of [] \<Rightarrow> [[c]] | w # ws \<Rightarrow> (c # w) # ws))"

fun py_join :: "string \<Rightarrow> string list \<Rightarrow> string" where
  \<comment> \<open>\<^verbatim>\<open>sep.join(xs)\<close>\<close>
  "py_join sep [] = []"
| "py_join sep [x] = x"
| "py_join sep (x # y # ys) = x @ sep @ py_join sep (y # ys)"

fun py_in :: "string \<Rightarrow> string \<Rightarrow> bool" where
  \<comment> \<open>\<^verbatim>\<open>sub in s\<close>\<close>
  "py_in sub [] = (sub = [])"
| "py_in sub (c # cs) = (take (length sub) (c # cs) = sub \<or> py_in sub cs)"

fun py_replace :: "string \<Rightarrow> string \<Rightarrow> string \<Rightarrow> string" where
  \<comment> \<open>\<^verbatim>\<open>s.replace(old, new)\<close> for a non-empty \<open>old\<close>: leftmost non-overlapping occurrences.\<close>
  "py_replace old new [] = []"
| "py_replace old new (c # cs) =
     (if old \<noteq> [] \<and> take (length old) (c # cs) = old
      then new @ py_replace old new (drop (length old - 1) cs)
      else c # py_replace old new cs)"

definition py_endswith :: "string \<Rightarrow> string \<Rightarrow> bool" where
  \<comment> \<open>\<^verbatim>\<open>s.endswith(suffix)\<close>\<close>
  "py_endswith s suffix = (length suffix \<le> length s \<and> drop (length s - length suffix) s = suffix)"

definition py_index :: "'a list \<Rightarrow> int \<Rightarrow> py_error + 'a" where
  \<comment> \<open>\<^verbatim>\<open>xs[i]\<close>: a negative index counts from the end, out of range raises.\<close>
  "py_index xs i =
     (if 0 \<le> i \<and> i < int (length xs) then Inr (xs ! nat i)
      else if i < 0 \<and> - int (length xs) \<le> i then Inr (xs ! nat (int (length xs) + i))
      else Inl IndexError)"

definition digit_char :: "nat \<Rightarrow> char" where
  "digit_char d = ''0123456789'' ! d"

function str_digits :: "int \<Rightarrow> string" where
  \<comment> \<open>the decimal digits of a non-negative integer\<close>
  "str_digits n =
     (if n < 10 then [digit_char (nat n)]
      else str_digits (n div 10) @ [digit_char (nat (n mod 10))])"
  by pat_completeness auto
termination
  by (relation "measure nat") auto

definition py_str :: "int \<Rightarrow> string" where
  \<comment> \<open>\<^verbatim>\<open>str(n)\<close> of an integer: its decimal representation.\<close>
  "py_str n = (if n < 0 then CHR ''-'' # str_digits (- n) else str_digits n)"

definition py_zfill :: "nat \<Rightarrow> string \<Rightarrow> string" where
  \<comment> \<open>\<^verbatim>\<open>s.zfill(width)\<close>: zeros go after a leading sign; a string of the width or longer is unchanged.\<close>
  "py_zfill width s =
     (if width \<le> length s then s
      else (case s of
              [] \<Rightarrow> replicate width CHR ''0''
            | c # cs \<Rightarrow>
                if c = CHR ''+'' \<or> c = CHR ''-''
                then c # replicate (width - length s) CHR ''0'' @ cs
                else replicate (width - length s) CHR ''0'' @ s))"

definition is_digit :: "char \<Rightarrow> bool" where
  "is_digit c = (let n = (of_char c :: int) in 48 \<le> n \<and> n \<le> 57)"

definition digit_val :: "char \<Rightarrow> int" where
  "digit_val c = of_char c - 48"

fun valid_digits :: "string \<Rightarrow> bool" where
  \<comment> \<open>digits, with single underscores allowed between two digits\<close>
  "valid_digits [] = False"
| "valid_digits [c] = is_digit c"
| "valid_digits (c # d # cs) =
     (is_digit c \<and> (if d = CHR ''_'' then valid_digits cs else valid_digits (d # cs)))"

definition int_space :: "char \<Rightarrow> bool" where
  \<comment> \<open>the whitespace that \<^verbatim>\<open>int\<close> skips around a numeral: TAB, LF, VT, FF, CR, space, and
      U+0085 and U+00A0; not FS, GS, RS, US.\<close>
  "int_space c =
     (let n = (of_char c :: int) in (9 \<le> n \<and> n \<le> 13) \<or> n = 32 \<or> n = 133 \<or> n = 160)"

definition int_strip :: "string \<Rightarrow> string" where
  "int_strip s = rev (dropWhile int_space (rev (dropWhile int_space s)))"

definition py_int :: "string \<Rightarrow> int option" where
  \<comment> \<open>\<^verbatim>\<open>int(s)\<close> of a string, base 10; \<open>None\<close> stands for \<^verbatim>\<open>ValueError\<close>.\<close>
  "py_int s =
     (let t = int_strip s;
          neg = (t \<noteq> [] \<and> hd t = CHR ''-'');
          body = (if t \<noteq> [] \<and> (hd t = CHR ''-'' \<or> hd t = CHR ''+'') then tl t else t)
      in if valid_digits body
         then Some ((if neg then - 1 else 1) *
                    foldl (\<lambda>n c. 10 * n + digit_val c) 0 (filter (\<lambda>c. c \<noteq> CHR ''_'') body))
         else None)"

datatype py_value = PyInt int | PyStr string

fun to_int :: "py_value \<Rightarrow> int option" where
  \<comment> \<open>\<^verbatim>\<open>int(v)\<close> of an integer or a string\<close>
  "to_int (PyInt n) = Some n"
| "to_int (PyStr s) = py_int s"

section \<open>Birth Date Deriver\<close>

definition season_dates :: "string \<rightharpoonup> string" where
  "season_dates = map_of
     [(''spring'', ''-03-21''), (''summer'', ''-06-21''), (''fall'', ''-09-21''), (''winter'', ''-12-21'')]"

definition gen_birth_date :: "int \<Rightarrow> py_value \<Rightarrow> string \<Rightarrow> py_error + string" where
  \<comment> \<open>\<^verbatim>\<open>gen_birth_date\<close>, lines 7 to 31; \<open>current_year\<close> is \<^verbatim>\<open>date.today().year\<close>\<close>
  "gen_birth_date current_year age_years season_born =
     (case to_int age_years of
        None \<Rightarrow> Inl ValueError
      | Some a \<Rightarrow>
          (let birth_year = current_year - a;
               date_suffix = (case season_dates (py_lower season_born) of
                                Some d \<Rightarrow> d | None \<Rightarrow> ''-01-01'')
           in Inr (py_str birth_year @ date_suffix)))"

section \<open>ID Generator\<close>

type_synonym counts = "string \<rightharpoonup> int"

definition gen_unique_id :: "string \<Rightarrow> counts \<Rightarrow> string \<times> counts" where
  \<comment> \<open>\<^verbatim>\<open>gen_unique_id\<close>, lines 33 to 50; the global \<^verbatim>\<open>species_counts\<close> is passed in and
      returned updated\<close>
  "gen_unique_id species species_counts =
     (let species_key = py_lower species;
          counts1 = (if species_counts species_key = None
                     then species_counts(species_key \<mapsto> 0) else species_counts);
          counts2 = counts1(species_key \<mapsto> the (counts1 species_key) + 1);
          prefix = py_capitalize (take 2 species);
          count_str = py_zfill 2 (py_str (the (counts2 species_key)))
      in (prefix @ count_str, counts2))"

subsection \<open>The ID Generator on Unicode code points\<close>

text \<open>
  Outside ASCII the case functions of Python are not maps of 8-bit characters. To state
  what \<^verbatim>\<open>gen_unique_id\<close> does there, the same function is given once more with a string as
  the list of its code points. The case mappings are those of Python on ASCII and on
  U+212A KELVIN SIGN, which lower-cases to U+006B and is its own title case; the other code
  points are not modelled and left as they are.
\<close>

type_synonym ustring = "int list"

definition cp_lower :: "int \<Rightarrow> int" where
  "cp_lower c = (if 65 \<le> c \<and> c \<le> 90 then c + 32 else if c = 0x212A then 0x6B else c)"

definition cp_title :: "int \<Rightarrow> int" where
  "cp_title c = (if 97 \<le> c \<and> c \<le> 122 then c - 32 else c)"

definition lower_cp :: "ustring \<Rightarrow> ustring" where
  \<comment> \<open>\<^verbatim>\<open>s.lower()\<close>\<close>
  "lower_cp s = map cp_lower s"

fun capitalize_cp :: "ustring \<Rightarrow> ustring" where
  \<comment> \<open>\<^verbatim>\<open>s.capitalize()\<close>: first code point in title case, the others lower-cased.\<close>
  "capitalize_cp [] = []"
| "capitalize_cp (c # cs) = cp_title c # map cp_lower cs"

definition gen_unique_id_cp :: "ustring \<Rightarrow> (ustring \<rightharpoonup> int) \<Rightarrow> ustring \<times> (ustring \<rightharpoonup> int)" where
  \<comment> \<open>\<^verbatim>\<open>gen_unique_id\<close>, lines 33 to 50, on code points; the digits are ASCII\<close>
  "gen_unique_id_cp species species_counts =
     (let species_key = lower_cp species;
          counts1 = (if species_counts species_key = None
                     then species_counts(species_key \<mapsto> 0) else species_counts);
          counts2 = counts1(species_key \<mapsto> the (counts1 species_key) + 1);
          prefix = capitalize_cp (take 2 species);
          count_str = map of_char (py_zfill 2 (py_str (the (counts2 species_key))))
      in (prefix @ count_str, counts2))"

section \<open>Files, dates and the report line\<close>

text \<open>
  A text file is its content; the file system maps a path to the content of the file
  there. Reading in text mode translates \<^verbatim>\<open>\r\n\<close> and \<^verbatim>\<open>\r\<close> to \<^verbatim>\<open>\n\<close>; iterating over the
  file, like \<^verbatim>\<open>readlines\<close>, yields the lines with their terminators. Opening a file for
  reading raises \<^verbatim>\<open>FileNotFoundError\<close> when the path has no file and succeeds otherwise;
  opening one for writing raises it when the path is empty or its directory is missing, and
  succeeds otherwise. No file has the empty path. \<^verbatim>\<open>date.today()\<close> is the same date
  throughout a run.
\<close>

type_synonym files = "string \<rightharpoonup> string"

fun translate_newlines :: "string \<Rightarrow> string" where
  "translate_newlines [] = []"
| "translate_newlines [c] = [if c = CHR 0x0D then CHR 0x0A else c]"
| "translate_newlines (c # d # cs) =
     (if c = CHR 0x0D
      then (if d = CHR 0x0A then CHR 0x0A # translate_newlines cs
            else CHR 0x0A # translate_newlines (d # cs))
      else c # translate_newlines (d # cs))"

fun split_lines :: "string \<Rightarrow> string list" where
  "split_lines [] = []"
| "split_lines (c # cs) =
     (if c = CHR 0x0A then [c] # split_lines cs
      else (case split_lines cs of [] \<Rightarrow> [[c]] | l # ls \<Rightarrow> (c # l) # ls))"

definition readlines :: "string \<Rightarrow> string list" where
  "readlines content = split_lines (translate_newlines content)"

record py_date =
  year :: int
  month :: nat
  day :: nat

definition isoformat :: "py_date \<Rightarrow> string" where
  \<comment> \<open>\<^verbatim>\<open>d.isoformat()\<close>\<close>
  "isoformat d =
     py_zfill 4 (py_str (year d)) @ ''-'' @ py_zfill 2 (py_str (int (month d))) @ ''-'' @
     py_zfill 2 (py_str (int (day d)))"

definition output_line ::
  "string \<Rightarrow> string \<Rightarrow> string \<Rightarrow> string \<Rightarrow> string \<Rightarrow> string \<Rightarrow> string \<Rightarrow> string \<Rightarrow> string" where
  \<comment> \<open>the f-string of the report line, line 131\<close>
  "output_line unique_id name birth_date color sex weight origin arrival_date =
     unique_id @ ''; '' @ name @ ''; birth date: '' @ birth_date @ ''; '' @ color @ ''; '' @
     sex @ ''; '' @ weight @ ''; '' @ origin @ ''; arrived '' @ arrival_date"

section \<open>Name Pool Loader\<close>

type_synonym name_pool = "string \<rightharpoonup> string list"

fun load_loop :: "string list \<Rightarrow> string \<Rightarrow> name_pool \<Rightarrow> py_error + name_pool" where
  \<comment> \<open>the loop of \<^verbatim>\<open>load_names\<close>, lines 61 to 68, on the lines still to read\<close>
  "load_loop [] current_species names_dict = Inr names_dict"
| "load_loop (raw # rest) current_species names_dict =
     (let line = py_strip raw in
      if py_endswith line ''Names:'' then
        (case py_index (py_split line) 0 of
           Inl e \<Rightarrow> Inl e
         | Inr w \<Rightarrow> load_loop rest (py_lower w) (names_dict(py_lower w \<mapsto> [])))
      else if line \<noteq> [] \<and> current_species \<noteq> [] then
        (case names_dict current_species of
           None \<Rightarrow> Inl KeyError
         | Some ns \<Rightarrow>
             load_loop rest current_species
               (names_dict(current_species \<mapsto> ns @ map py_strip (py_split_sep CHR '','' line))))
      else load_loop rest current_species names_dict)"

definition load_names :: "files \<Rightarrow> string \<Rightarrow> py_error + (name_pool \<times> string list)" where
  \<comment> \<open>\<^verbatim>\<open>load_names\<close>, lines 52 to 71; returns the pool and the messages printed\<close>
  "load_names fs file_path =
     (case fs file_path of
        None \<Rightarrow> Inr (Map.empty, [''Error: '' @ file_path @ '' not found.''])
      | Some content \<Rightarrow>
          (case load_loop (readlines content) [] Map.empty of
             Inl e \<Rightarrow> Inl e
           | Inr names_dict \<Rightarrow> Inr (names_dict, [])))"

section \<open>Record Parser\<close>

record animal =
  age :: int
  sex :: string
  species :: string
  season :: string
  color :: string
  weight :: string
  origin :: string

definition bind_err :: "'e + 'a \<Rightarrow> ('a \<Rightarrow> 'e + 'b) \<Rightarrow> 'e + 'b" where
  "bind_err m f = (case m of Inl e \<Rightarrow> Inl e | Inr x \<Rightarrow> f x)"

definition parse_line :: "string \<Rightarrow> py_error + animal" where
  \<comment> \<open>the parsing part of the loop body of \<^verbatim>\<open>process_zoo_data\<close>, lines 95 to 115, on the
      stripped line\<close>
  "parse_line line =
     (let parts = map py_strip (py_split_sep CHR '','' line) in
      bind_err (py_index parts 0) (\<lambda>part0.
      let first_segment = py_split part0 in
      bind_err (py_index first_segment 0) (\<lambda>token0.
      bind_err (case py_int token0 of None \<Rightarrow> Inl ValueError | Some n \<Rightarrow> Inr n) (\<lambda>age.
      bind_err (py_index first_segment 3) (\<lambda>sex.
      bind_err (py_index first_segment (- 1)) (\<lambda>species.
      bind_err (py_index parts 1) (\<lambda>part1.
      let season = (if py_in ''born in'' part1
                    then py_strip (py_replace ''born in'' [] part1) else ''unknown'') in
      bind_err (py_index parts 2) (\<lambda>color.
      bind_err (py_index parts 3) (\<lambda>weight.
      let origin = py_join '', '' (drop 4 parts) in
      Inr \<lparr>age = age, sex = sex, species = species, season = season, color = color,
           weight = weight, origin = origin\<rparr>)))))))))"

section \<open>Report Writer\<close>

text \<open>
  The dictionary \<^verbatim>\<open>habitats\<close> is iterated, so it is an association list with distinct
  keys in insertion order; the dictionaries that are only looked up are maps.
\<close>

type_synonym habitat_dict = "(string \<times> string list) list"

record zoo_state =
  species_counts :: counts
  species_names :: name_pool
  habitats :: habitat_dict

definition habitats_append :: "string \<Rightarrow> string \<Rightarrow> habitat_dict \<Rightarrow> habitat_dict" where
  \<comment> \<open>lines 133 to 135: a new key goes to the end, then the line is appended to the key's list\<close>
  "habitats_append species_key line hs =
     (let hs1 = (if map_of hs species_key = None then hs @ [(species_key, [])] else hs)
      in map (\<lambda>(k, ls). if k = species_key then (k, ls @ [line]) else (k, ls)) hs1)"

definition add_animal :: "py_date \<Rightarrow> animal \<Rightarrow> zoo_state \<Rightarrow> py_error + zoo_state" where
  \<comment> \<open>the rest of the loop body, lines 118 to 135: generated data, name, report line\<close>
  "add_animal today a st =
     bind_err (gen_birth_date (year today) (PyInt (age a)) (season a)) (\<lambda>birth_date.
     let (unique_id, counts') = gen_unique_id (species a) (species_counts st);
         species_key = py_lower (species a);
         (name, names') =
            (case species_names st species_key of
               Some (n # ns) \<Rightarrow> (n, (species_names st)(species_key \<mapsto> ns))
             | _ \<Rightarrow> (''Unnamed'', species_names st));
         arrival_date = isoformat today;
         line = output_line unique_id name birth_date (color a) (sex a) (weight a) (origin a)
                  arrival_date
     in Inr \<lparr>species_counts = counts', species_names = names',
             habitats = habitats_append species_key line (habitats st)\<rparr>)"

definition process_line :: "py_date \<Rightarrow> string \<Rightarrow> zoo_state \<Rightarrow> py_error + zoo_state" where
  \<comment> \<open>the loop body, lines 89 to 135: a blank line is skipped\<close>
  "process_line today raw st =
     (let line = py_strip raw in
      if line = [] then Inr st
      else bind_err (parse_line line) (\<lambda>a. add_animal today a st))"

fun run_lines :: "py_date \<Rightarrow> string list \<Rightarrow> zoo_state \<Rightarrow> zoo_state \<times> py_error option" where
  \<comment> \<open>the loop over the input lines; an exception leaves the loop with the state reached\<close>
  "run_lines today [] st = (st, None)"
| "run_lines today (raw # rest) st =
     (case process_line today raw st of
        Inl e \<Rightarrow> (st, Some e)
      | Inr st' \<Rightarrow> run_lines today rest st')"

definition habitat_order :: "string list" where
  "habitat_order = [''hyena'', ''lion'', ''bear'', ''tiger'']"

definition write_habitat :: "string \<Rightarrow> string list \<Rightarrow> string" where
  \<comment> \<open>the three writes of one group: lines 144 to 147, and again 152 to 155\<close>
  "write_habitat sp animals =
     py_capitalize sp @ '' Habitat:'' @ [CHR 0x0A, CHR 0x0A] @
     concat (map (\<lambda>animal. animal @ [CHR 0x0A]) animals) @ [CHR 0x0A]"

definition write_report :: "habitat_dict \<Rightarrow> string" where
  \<comment> \<open>everything written to the output file, lines 142 to 155\<close>
  "write_report hs =
     concat (map (\<lambda>sp. case map_of hs sp of None \<Rightarrow> [] | Some animals \<Rightarrow> write_habitat sp animals)
               habitat_order) @
     concat (map (\<lambda>(sp, animals). if sp \<notin> set habitat_order then write_habitat sp animals else [])
               hs)"

record outcome =
  files_after :: files
  counts_after :: counts
  printed :: "string list"
  raised :: "py_error option"

definition open_write_error :: "(string \<Rightarrow> bool) \<Rightarrow> string \<Rightarrow> bool" where
  \<comment> \<open>\<^verbatim>\<open>open(path, 'w')\<close> raises \<^verbatim>\<open>FileNotFoundError\<close>: the path is empty, or \<open>no_dir\<close> says
      that it names a directory that does not exist\<close>
  "open_write_error no_dir path \<longleftrightarrow> path = [] \<or> no_dir path"

definition process_zoo_data ::
  "py_date \<Rightarrow> files \<Rightarrow> (string \<Rightarrow> bool) \<Rightarrow> counts \<Rightarrow> string \<Rightarrow> string \<Rightarrow> string \<Rightarrow> outcome" where
  \<comment> \<open>\<^verbatim>\<open>process_zoo_data\<close>, lines 73 to 158; \<open>today\<close> is \<^verbatim>\<open>date.today()\<close>, \<open>fs\<close> the files,
      \<open>no_dir\<close> the paths whose directory is missing, \<open>cnts\<close> the global \<^verbatim>\<open>species_counts\<close>;
      only \<^verbatim>\<open>FileNotFoundError\<close> is caught, also the one of opening the output file\<close>
  "process_zoo_data today fs no_dir cnts input_file names_file output_file =
     (case load_names fs names_file of
        Inl e \<Rightarrow> \<lparr>files_after = fs, counts_after = cnts, printed = [], raised = Some e\<rparr>
      | Inr (names, msgs) \<Rightarrow>
          (case fs input_file of
             None \<Rightarrow>
               \<lparr>files_after = fs, counts_after = cnts,
                printed = msgs @ [''Error: Input file not found.''], raised = None\<rparr>
           | Some content \<Rightarrow>
               (case run_lines today (readlines content)
                       \<lparr>species_counts = cnts, species_names = names, habitats = []\<rparr> of
                  (st, Some e) \<Rightarrow>
                    \<lparr>files_after = fs, counts_after = species_counts st, printed = msgs,
                     raised = Some e\<rparr>
                | (st, None) \<Rightarrow>
                    (if open_write_error no_dir output_file
                     then \<lparr>files_after = fs, counts_after = species_counts st,
                           printed = msgs @ [''Error: Input file not found.''], raised = None\<rparr>
                     else \<lparr>files_after = fs(output_file \<mapsto> write_report (habitats st)),
                           counts_after = species_counts st, printed = msgs, raised = None\<rparr>))))"

section \<open>Notions used to state the properties\<close>

definition count_of :: "counts \<Rightarrow> string \<Rightarrow> int" where
  \<comment> \<open>the counter of a species key, 0 when the key is absent\<close>
  "count_of cnts k = (case cnts k of None \<Rightarrow> 0 | Some n \<Rightarrow> n)"

definition id_calls :: "string list \<Rightarrow> counts \<Rightarrow> counts" where
  \<comment> \<open>the counters after calling \<open>gen_unique_id\<close> on each species of the list in turn\<close>
  "id_calls prev cnts = fold (\<lambda>s c. snd (gen_unique_id s c)) prev cnts"

definition id_calls_cp :: "ustring list \<Rightarrow> (ustring \<rightharpoonup> int) \<Rightarrow> (ustring \<rightharpoonup> int)" where
  \<comment> \<open>the counters after calling \<open>gen_unique_id_cp\<close> on each species of the list in turn\<close>
  "id_calls_cp prev cnts = fold (\<lambda>s c. snd (gen_unique_id_cp s c)) prev cnts"

definition plain_digit :: "char \<Rightarrow> bool" where
  \<comment> \<open>a decimal digit, as a character of a numeral\<close>
  "plain_digit c \<longleftrightarrow> is_digit c \<and> c \<noteq> CHR ''_'' \<and> \<not> is_space c"

definition key_of :: "animal \<Rightarrow> string" where
  \<comment> \<open>the species key of a record\<close>
  "key_of a = py_lower (species a)"

definition parsed :: "string list \<Rightarrow> animal list" where
  \<comment> \<open>the records of the non-blank lines that parse, in input order\<close>
  "parsed raws =
     concat (map (\<lambda>raw. if py_strip raw = [] then []
                         else (case parse_line (py_strip raw) of Inl e \<Rightarrow> [] | Inr a \<Rightarrow> [a]))
               raws)"

definition of_key :: "string \<Rightarrow> animal list \<Rightarrow> animal list" where
  \<comment> \<open>the records of one species key, in input order\<close>
  "of_key k as = filter (\<lambda>a. key_of a = k) as"

definition pool_name :: "name_pool \<Rightarrow> string \<Rightarrow> nat \<Rightarrow> string" where
  \<comment> \<open>the name at position \<open>i\<close> (from 0) of the pool loaded for a key, the placeholder beyond it\<close>
  "pool_name P k i =
     (case P k of
        None \<Rightarrow> ''Unnamed''
      | Some ns \<Rightarrow> if i < length ns then ns ! i else ''Unnamed'')"

definition report_line :: "py_date \<Rightarrow> counts \<Rightarrow> nat \<Rightarrow> string \<Rightarrow> animal \<Rightarrow> string" where
  \<comment> \<open>the report line of the record that is number \<open>i\<close> (from 0) of its species key and is given \<open>name\<close>\<close>
  "report_line today cnts i name a =
     output_line
       (py_capitalize (take 2 (species a)) @
        py_zfill 2 (py_str (count_of cnts (key_of a) + int i + 1)))
       name
       (py_str (year today - age a) @
        (case season_dates (py_lower (season a)) of Some d \<Rightarrow> d | None \<Rightarrow> ''-01-01''))
       (color a) (sex a) (weight a) (origin a) (isoformat today)"

definition habitat_lines :: "py_date \<Rightarrow> counts \<Rightarrow> name_pool \<Rightarrow> string \<Rightarrow> animal list \<Rightarrow> string list" where
  "habitat_lines today cnts P k as =
     map (\<lambda>(i, a). report_line today cnts i (pool_name P k i) a) (enumerate 0 (of_key k as))"

definition first_seen :: "'a list \<Rightarrow> 'a list" where
  \<comment> \<open>the elements of a list without repetition, each at its first occurrence\<close>
  "first_seen xs = rev (remdups (rev xs))"

definition expected_habitats :: "py_date \<Rightarrow> counts \<Rightarrow> name_pool \<Rightarrow> animal list \<Rightarrow> habitat_dict" where
  "expected_habitats today cnts P as =
     map (\<lambda>k. (k, habitat_lines today cnts P k as)) (first_seen (map key_of as))"

definition report_order :: "string list \<Rightarrow> string list" where
  \<comment> \<open>the preferred keys that occur, then the other keys in the order given\<close>
  "report_order ks = filter (\<lambda>k. k \<in> set ks) habitat_order @ filter (\<lambda>k. k \<notin> set habitat_order) ks"

definition take_name :: "name_pool \<Rightarrow> string \<Rightarrow> string \<times> name_pool" where
  \<comment> \<open>the name assignment of the loop body, as one step on the pool\<close>
  "take_name names k =
     (case names k of
        Some (n # ns) \<Rightarrow> (n, names(k \<mapsto> ns))
      | _ \<Rightarrow> (''Unnamed'', names))"

definition reached :: "py_date \<Rightarrow> counts \<Rightarrow> name_pool \<Rightarrow> animal list \<Rightarrow> zoo_state \<Rightarrow> bool" where
  \<comment> \<open>the state of the loop once the records \<open>as\<close> are processed, from counters \<open>cnts\<close>, pool \<open>P\<close>
      and no habitats\<close>
  "reached today cnts P as st \<longleftrightarrow>
     species_counts st = id_calls (map species as) cnts \<and>
     species_names st = (\<lambda>k. map_option (drop (length (of_key k as))) (P k)) \<and>
     habitats st = expected_habitats today cnts P as"

subsection \<open>Concrete inputs\<close>

definition today_example :: py_date where
  "today_example = \<lparr>year = 2026, month = 11, day = 3\<rparr>"

definition fresh_counts :: counts where
  \<comment> \<open>the counters of a process that has just started\<close>
  "fresh_counts = Map.empty"

definition none_missing :: "string \<Rightarrow> bool" where
  \<comment> \<open>every directory that a path names exists\<close>
  "none_missing path = False"

definition fresh_counts_cp :: "ustring \<rightharpoonup> int" where
  "fresh_counts_cp = Map.empty"

definition no_files :: files where
  "no_files = Map.empty"

definition names_example :: string where
  "names_example =
     ''Hyena Names:\<newline>Shenzi, Banzai\<newline>\<newline>Lion Names:\<newline>Scar, Mufasa\<newline>''"

definition names_only :: files where
  "names_only = [''animalNames.txt'' \<mapsto> names_example]"

definition bad_first_token :: files where
  "bad_first_token =
     [''animalNames.txt'' \<mapsto> names_example,
      ''arrivingAnimals.txt'' \<mapsto> ''unknown animal, no data\<newline>'']"

definition two_segments :: files where
  "two_segments =
     [''animalNames.txt'' \<mapsto> names_example,
      ''arrivingAnimals.txt'' \<mapsto> ''\<newline>4 year old female hyena, born in spring\<newline>'']"

definition arrivals_example :: string where
  "arrivals_example =
     ''4 year old female lion, born in spring, tan color, 300 pounds, from Zanzibar, Tanzania\<newline>'' @
     ''12 year old male hyena, born in fall, brown color, 150 pounds, from Friguia Park, Tunisia\<newline>'' @
     ''\<newline>'' @
     ''2 year old male zebra, born in summer, striped color, 500 pounds, from Nairobi, Kenya\<newline>'' @
     ''6 year old female Hyena, unknown season, black color, 105 pounds, from Friguia Park, Tunisia\<newline>'' @
     ''3 year old female HYENA, born in winter, tan color, 90 pounds, from Friguia Park, Tunisia\<newline>''"

definition animals_example :: "animal list" where
  "animals_example =
     [\<lparr>age = 4, sex = ''female'', species = ''lion'', season = ''spring'', color = ''tan color'',
       weight = ''300 pounds'', origin = ''from Zanzibar, Tanzania''\<rparr>,
      \<lparr>age = 12, sex = ''male'', species = ''hyena'', season = ''fall'', color = ''brown color'',
       weight = ''150 pounds'', origin = ''from Friguia Park, Tunisia''\<rparr>,
      \<lparr>age = 2, sex = ''male'', species = ''zebra'', season = ''summer'', color = ''striped color'',
       weight = ''500 pounds'', origin = ''from Nairobi, Kenya''\<rparr>,
      \<lparr>age = 6, sex = ''female'', species = ''Hyena'', season = ''unknown'', color = ''black color'',
       weight = ''105 pounds'', origin = ''from Friguia Park, Tunisia''\<rparr>,
      \<lparr>age = 3, sex = ''female'', species = ''HYENA'', season = ''winter'', color = ''tan color'',
       weight = ''90 pounds'', origin = ''from Friguia Park, Tunisia''\<rparr>]"

definition zoo_files :: files where
  "zoo_files = [''animalNames.txt'' \<mapsto> names_example, ''arrivingAnimals.txt'' \<mapsto> arrivals_example]"

definition arrivals_only :: files where
  "arrivals_only = [''arrivingAnimals.txt'' \<mapsto> arrivals_example]"

definition pool_example :: name_pool where
  \<comment> \<open>the pool that the Name Pool Loader returns for \<open>zoo_files\<close>\<close>
  "pool_example =
     (case load_names zoo_files ''animalNames.txt'' of Inl e \<Rightarrow> Map.empty | Inr (P, msgs) \<Rightarrow> P)"

definition blank_input :: files where
  \<comment> \<open>an input file of blank lines, and no names file\<close>
  "blank_input = [''arrivingAnimals.txt'' \<mapsto> '' \<newline>\<newline>'']"

definition fresh_state :: zoo_state where
  "fresh_state = \<lparr>species_counts = fresh_counts, species_names = Map.empty, habitats = []\<rparr>"

section \<open>Properties of the ID Generator\<close>

declare str_digits.simps [simp del]

lemma str_digits_small: "n < 10 \<Longrightarrow> str_digits n = [digit_char (nat n)]"
  by (subst str_digits.simps) simp

lemma str_digits_big:
  "10 \<le> n \<Longrightarrow> str_digits n = str_digits (n div 10) @ [digit_char (nat (n mod 10))]"
  by (subst str_digits.simps) simp

lemma length_str_digits_pos: "0 < length (str_digits n)"
  by (cases "n < 10") (simp_all add: str_digits_small str_digits_big)

lemma length_str_digits_step:
  "10 \<le> n \<Longrightarrow> length (str_digits n) = length (str_digits (n div 10)) + 1"
  by (simp add: str_digits_big)

lemma length_str_digits_2: "10 \<le> n \<Longrightarrow> 2 \<le> length (str_digits n)"
  using length_str_digits_pos [of "n div 10"] length_str_digits_step [of n] by arith

lemma length_str_digits_3: "100 \<le> n \<Longrightarrow> 3 \<le> length (str_digits n)"
  using length_str_digits_2 [of "n div 10"] length_str_digits_step [of n] by arith

lemma digit_char_cases:
  "n < 10 \<Longrightarrow> digit_char n \<in> set ''0123456789''"
  unfolding digit_char_def by (rule nth_mem) simp

lemma digit_char_not_sign:
  assumes "n < 10"
  shows "digit_char n \<noteq> CHR ''+''" and "digit_char n \<noteq> CHR ''-''"
  using digit_char_cases [OF assms] by auto

lemma gen_unique_id_fst:
  "fst (gen_unique_id s cnts) = py_capitalize (take 2 s) @ py_zfill 2 (py_str (count_of cnts (py_lower s) + 1))"
  by (simp add: gen_unique_id_def Let_def count_of_def split: option.splits)

lemma gen_unique_id_snd:
  "snd (gen_unique_id s cnts) = cnts(py_lower s \<mapsto> count_of cnts (py_lower s) + 1)"
  by (auto simp add: gen_unique_id_def Let_def count_of_def split: option.splits)

lemma zfill_count:
  "py_zfill 2 (py_str (int n)) = (if n < 10 then CHR ''0'' # py_str (int n) else py_str (int n))"
proof (cases "n < 10")
  case True
  then show ?thesis using digit_char_not_sign [of n]
    by (simp add: py_zfill_def py_str_def str_digits_small)
next
  case False
  then show ?thesis using length_str_digits_2 [of "int n"]
    by (simp add: py_zfill_def py_str_def)
qed

lemma count_of_upd:
  "count_of (cnts(k \<mapsto> v)) k' = (if k' = k then v else count_of cnts k')"
  by (simp add: count_of_def)

lemma count_of_id_calls:
  "count_of (id_calls prev cnts) k = count_of cnts k + int (length (filter (\<lambda>t. py_lower t = k) prev))"
proof (induction prev arbitrary: cnts)
  case Nil
  show ?case by (simp add: id_calls_def)
next
  case (Cons s prev)
  have "count_of (id_calls (s # prev) cnts) k =
      count_of (id_calls prev (snd (gen_unique_id s cnts))) k"
    by (simp add: id_calls_def)
  also have "\<dots> =
      count_of (snd (gen_unique_id s cnts)) k + int (length (filter (\<lambda>t. py_lower t = k) prev))"
    by (rule Cons.IH)
  also have "count_of (snd (gen_unique_id s cnts)) k =
      (if k = py_lower s then count_of cnts (py_lower s) + 1 else count_of cnts k)"
    by (simp only: gen_unique_id_snd count_of_upd)
  finally show ?case by simp
qed

lemma count_of_empty: "count_of Map.empty k = 0"
  by (simp add: count_of_def)

lemma digit_char_props:
  assumes "d < 10"
  shows "is_digit (digit_char d)" and "digit_val (digit_char d) = int d"
    and "digit_char d \<noteq> CHR ''_''" and "\<not> is_space (digit_char d)"
proof -
  from assms have "d = 0 \<or> d = 1 \<or> d = 2 \<or> d = 3 \<or> d = 4 \<or> d = 5 \<or> d = 6 \<or> d = 7 \<or> d = 8 \<or> d = 9"
    by arith
  then have "is_digit (digit_char d) \<and> digit_val (digit_char d) = int d \<and>
      digit_char d \<noteq> CHR ''_'' \<and> \<not> is_space (digit_char d)"
    by (elim disjE) (simp_all add: digit_char_def is_digit_def digit_val_def is_space_def)
  then show "is_digit (digit_char d)" and "digit_val (digit_char d) = int d"
    and "digit_char d \<noteq> CHR ''_''" and "\<not> is_space (digit_char d)"
    by simp_all
qed

lemma str_digits_plain: "0 \<le> n \<Longrightarrow> list_all plain_digit (str_digits n) \<and> str_digits n \<noteq> []"
proof (induction n rule: str_digits.induct)
  case (1 n)
  show ?case
  proof (cases "n < 10")
    case True
    with "1.prems" have "nat n < 10" by simp
    then have "plain_digit (digit_char (nat n))"
      unfolding plain_digit_def by (intro conjI digit_char_props)
    with True show ?thesis by (simp add: str_digits_small)
  next
    case False
    then have "nat (n mod 10) < 10" by simp
    then have "plain_digit (digit_char (nat (n mod 10)))"
      unfolding plain_digit_def by (intro conjI digit_char_props)
    moreover from False "1.prems" have "list_all plain_digit (str_digits (n div 10))"
      using "1.IH" by simp
    ultimately show ?thesis using False by (simp add: str_digits_big)
  qed
qed

lemma str_digits_value:
  "0 \<le> n \<Longrightarrow> foldl (\<lambda>a c. 10 * a + digit_val c) 0 (str_digits n) = n"
proof (induction n rule: str_digits.induct)
  case (1 n)
  show ?case
  proof (cases "n < 10")
    case True
    with "1.prems" have "nat n < 10" by simp
    then have "digit_val (digit_char (nat n)) = int (nat n)" by (rule digit_char_props)
    with True "1.prems" show ?thesis by (simp add: str_digits_small)
  next
    case False
    have "nat (n mod 10) < 10" by simp
    then have "digit_val (digit_char (nat (n mod 10))) = int (nat (n mod 10))"
      by (rule digit_char_props)
    moreover from False "1.prems"
    have "foldl (\<lambda>a c. 10 * a + digit_val c) 0 (str_digits (n div 10)) = n div 10"
      using "1.IH" by simp
    ultimately show ?thesis using False by (simp add: str_digits_big)
  qed
qed

lemma valid_digits_plain: "ds \<noteq> [] \<Longrightarrow> list_all plain_digit ds \<Longrightarrow> valid_digits ds"
  by (induction ds rule: valid_digits.induct) (auto simp add: plain_digit_def)

lemma filter_plain: "list_all plain_digit ds \<Longrightarrow> filter (\<lambda>c. c \<noteq> CHR ''_'') ds = ds"
  by (induction ds) (auto simp add: plain_digit_def)

lemma int_space_is_space: "int_space c \<Longrightarrow> is_space c"
  by (auto simp add: int_space_def is_space_def Let_def)

lemma int_strip_no_space: "\<forall>c\<in>set s. \<not> int_space c \<Longrightarrow> int_strip s = s"
proof -
  assume a: "\<forall>c\<in>set s. \<not> int_space c"
  then have "dropWhile int_space s = s" by (cases s) simp_all
  moreover from a have "dropWhile int_space (rev s) = rev s" by (cases "rev s") auto
  ultimately show ?thesis by (simp add: int_strip_def)
qed

lemma plain_not_space: "list_all plain_digit ds \<Longrightarrow> \<forall>c\<in>set ds. \<not> int_space c"
  by (auto simp add: list_all_iff plain_digit_def dest: int_space_is_space)

lemma plain_hd_not_sign:
  assumes "list_all plain_digit ds" and "ds \<noteq> []"
  shows "hd ds \<noteq> CHR ''-''" and "hd ds \<noteq> CHR ''+''"
proof -
  from assms have "is_digit (hd ds)" by (cases ds) (simp_all add: plain_digit_def)
  then show "hd ds \<noteq> CHR ''-''" and "hd ds \<noteq> CHR ''+''"
    by (auto simp add: is_digit_def)
qed

lemma py_int_py_str: "py_int (py_str n) = Some n"
proof (cases "n < 0")
  case False
  then have p: "list_all plain_digit (str_digits n)" and ne: "str_digits n \<noteq> []"
    using str_digits_plain [of n] by simp_all
  from p have s: "int_strip (str_digits n) = str_digits n"
    by (intro int_strip_no_space plain_not_space)
  from False have v: "foldl (\<lambda>a c. 10 * a + digit_val c) 0 (str_digits n) = n"
    by (intro str_digits_value) simp
  from False show ?thesis
    using plain_hd_not_sign [OF p ne] valid_digits_plain [OF ne p]
    by (simp add: py_int_def py_str_def s Let_def filter_plain [OF p] v ne)
next
  case True
  then have p: "list_all plain_digit (str_digits (- n))" and ne: "str_digits (- n) \<noteq> []"
    using str_digits_plain [of "- n"] by simp_all
  have "\<not> int_space CHR ''-''" by (simp add: int_space_def)
  with plain_not_space [OF p]
  have s: "int_strip (CHR ''-'' # str_digits (- n)) = CHR ''-'' # str_digits (- n)"
    by (intro int_strip_no_space) simp
  from True have v: "foldl (\<lambda>a c. 10 * a + digit_val c) 0 (str_digits (- n)) = - n"
    by (intro str_digits_value) simp
  from True show ?thesis
    using valid_digits_plain [OF ne p]
    by (simp add: py_int_def py_str_def s Let_def filter_plain [OF p] v)
qed

text \<open>
  Claim C1. In a process that starts with empty counters, let \<open>prev\<close> be the species passed to
  the ID Generator so far, and let the next call, with species \<open>S\<close>, be the \<open>k\<close>-th whose
  species equals \<open>S\<close> up to letter case. It returns the first two characters of \<open>S\<close>
  capitalized, followed by the decimal digits of \<open>k\<close> padded with a zero to two digits; from
  10 on the digits are those of \<open>k\<close> unchanged, and from 100 on there are three or more.
  The digits are the decimal representation of \<open>k\<close>: read back as an integer they give \<open>k\<close>.
\<close>

theorem gen_unique_id_kth_call:
  "k = Suc (length (filter (\<lambda>t. py_lower t = py_lower S) prev)) \<Longrightarrow>
     fst (gen_unique_id S (id_calls prev Map.empty)) =
       py_capitalize (take 2 S) @ py_zfill 2 (py_str (int k)) \<and>
     py_zfill 2 (py_str (int k)) =
       (if k < 10 then CHR ''0'' # py_str (int k) else py_str (int k)) \<and>
     (100 \<le> k \<longrightarrow> 3 \<le> length (py_str (int k))) \<and>
     py_int (py_str (int k)) = Some (int k)"
proof (intro conjI impI)
  assume k: "k = Suc (length (filter (\<lambda>t. py_lower t = py_lower S) prev))"
  have "count_of (id_calls prev Map.empty) (py_lower S) + 1 = int k"
    by (simp add: count_of_id_calls count_of_empty k)
  then show "fst (gen_unique_id S (id_calls prev Map.empty)) =
           py_capitalize (take 2 S) @ py_zfill 2 (py_str (int k))"
    by (simp only: gen_unique_id_fst)
next
  show "py_zfill 2 (py_str (int k)) = (if k < 10 then CHR ''0'' # py_str (int k) else py_str (int k))"
    by (rule zfill_count)
next
  assume "100 \<le> k"
  then show "3 \<le> length (py_str (int k))"
    using length_str_digits_3 [of "int k"] by (simp add: py_str_def)
next
  show "py_int (py_str (int k)) = Some (int k)"
    by (rule py_int_py_str)
qed

theorem gen_unique_id_kth_call_witness:
  "fst (gen_unique_id ''hyena'' (id_calls [''Hyena'', ''lion'', ''HYENA''] Map.empty)) = ''Hy03'' \<and>
   fst (gen_unique_id ''hyena'' (id_calls (replicate 99 ''hyena'') Map.empty)) = ''Hy100''"
proof -
  have h3: "3 = Suc (length (filter (\<lambda>t. py_lower t = py_lower ''hyena'') [''Hyena'', ''lion'', ''HYENA'']))"
    by code_simp
  have e3: "py_capitalize (take 2 ''hyena'') @ py_zfill 2 (py_str (int 3)) = ''Hy03''"
    by code_simp
  have h100: "100 = Suc (length (filter (\<lambda>t. py_lower t = py_lower ''hyena'') (replicate 99 ''hyena'')))"
    by simp
  have e100: "py_capitalize (take 2 ''hyena'') @ py_zfill 2 (py_str (int 100)) = ''Hy100''"
    by code_simp
  from gen_unique_id_kth_call [OF h3]
  have "fst (gen_unique_id ''hyena'' (id_calls [''Hyena'', ''lion'', ''HYENA''] Map.empty)) = ''Hy03''"
    unfolding e3 by (rule conjunct1)
  moreover from gen_unique_id_kth_call [OF h100]
  have "fst (gen_unique_id ''hyena'' (id_calls (replicate 99 ''hyena'') Map.empty)) = ''Hy100''"
    unfolding e100 by (rule conjunct1)
  ultimately show ?thesis by (rule conjI)
qed

lemma cp_title_ascii:
  "c < 128 \<Longrightarrow> d < 128 \<Longrightarrow> cp_lower c = cp_lower d \<Longrightarrow> cp_title c = cp_title d"
  by (auto simp add: cp_lower_def cp_title_def split: if_splits)

lemma capitalize_cp_ascii:
  assumes "\<forall>c\<in>set xs \<union> set ys. c < 128" and "map cp_lower xs = map cp_lower ys"
  shows "capitalize_cp xs = capitalize_cp ys"
proof (cases xs)
  case Nil
  with assms(2) show ?thesis by simp
next
  case (Cons x xs')
  with assms(2) obtain y ys' where ys: "ys = y # ys'" by (cases ys) auto
  with Cons assms(2) have "cp_lower x = cp_lower y" "map cp_lower xs' = map cp_lower ys'"
    by simp_all
  moreover from Cons ys assms(1) have "x < 128" "y < 128" by simp_all
  ultimately show ?thesis using Cons ys cp_title_ascii [of x y] by simp
qed

lemma prefix_cp_ascii:
  assumes "\<forall>c\<in>set s \<union> set t. c < 128" and "lower_cp s = lower_cp t"
  shows "capitalize_cp (take 2 s) = capitalize_cp (take 2 t)"
proof -
  from assms(2) have "take 2 (map cp_lower s) = take 2 (map cp_lower t)"
    by (simp add: lower_cp_def)
  then have "map cp_lower (take 2 s) = map cp_lower (take 2 t)"
    by (simp only: take_map)
  moreover from assms(1) have "\<forall>c\<in>set (take 2 s) \<union> set (take 2 t). c < 128"
    by (auto dest: in_set_takeD)
  ultimately show ?thesis by (intro capitalize_cp_ascii)
qed

lemma gen_unique_id_cp_ascii:
  assumes "\<forall>c\<in>set s \<union> set t. c < 128" and "lower_cp s = lower_cp t"
  shows "gen_unique_id_cp s cnts = gen_unique_id_cp t cnts"
  using assms(2) prefix_cp_ascii [OF assms] by (simp add: gen_unique_id_cp_def Let_def)

lemma gen_unique_id_cp_counters:
  "lower_cp s = lower_cp t \<Longrightarrow> snd (gen_unique_id_cp s cnts) = snd (gen_unique_id_cp t cnts)"
  by (simp add: gen_unique_id_cp_def Let_def)

lemma id_calls_cp_cong:
  "map lower_cp prev = map lower_cp prev' \<Longrightarrow> id_calls_cp prev cnts = id_calls_cp prev' cnts"
proof (induction prev arbitrary: prev' cnts)
  case Nil
  then show ?case by simp
next
  case (Cons s prev)
  then obtain t rest where p: "prev' = t # rest" by (cases prev') auto
  with Cons.prems have st: "lower_cp s = lower_cp t" and r: "map lower_cp prev = map lower_cp rest"
    by simp_all
  have "snd (gen_unique_id_cp s cnts) = snd (gen_unique_id_cp t cnts)"
    using st by (rule gen_unique_id_cp_counters)
  moreover have "id_calls_cp (s # prev) cnts = id_calls_cp prev (snd (gen_unique_id_cp s cnts))"
    by (simp add: id_calls_cp_def)
  moreover have "id_calls_cp (t # rest) cnts = id_calls_cp rest (snd (gen_unique_id_cp t cnts))"
    by (simp add: id_calls_cp_def)
  ultimately show ?case using Cons.IH [OF r] p by simp
qed

text \<open>
  Claim C10, as amended. Two species strings of ASCII characters that are equal up to letter
  case are the same to the ID Generator: from any counters the two calls return the same
  identifier and leave the same counters, one counter being shared, and this stays so after
  any two histories of calls that agree up to letter case.
\<close>

theorem gen_unique_id_case_insensitive:
  "\<forall>c\<in>set s \<union> set t. c < 128 \<Longrightarrow> lower_cp s = lower_cp t \<Longrightarrow>
   map lower_cp prev = map lower_cp prev' \<Longrightarrow>
     gen_unique_id_cp s cnts = gen_unique_id_cp t cnts \<and>
     gen_unique_id_cp s (id_calls_cp prev cnts) = gen_unique_id_cp t (id_calls_cp prev' cnts)"
  using gen_unique_id_cp_ascii [of s t] id_calls_cp_cong [of prev prev' cnts]
  by simp

theorem gen_unique_id_case_insensitive_witness:
  "gen_unique_id_cp (map of_char ''hyena'') (id_calls_cp [map of_char ''Hyena''] fresh_counts_cp) =
   gen_unique_id_cp (map of_char ''HYENA'') (id_calls_cp [map of_char ''hYENA''] fresh_counts_cp) \<and>
   fst (gen_unique_id_cp (map of_char ''HYENA'') (id_calls_cp [map of_char ''hYENA''] fresh_counts_cp)) =
     map of_char ''Hy02''"
proof -
  have a: "\<forall>c\<in>set (map of_char ''hyena'') \<union> set (map of_char ''HYENA''). c < (128::int)"
    by code_simp
  have h1: "lower_cp (map of_char ''hyena'') = lower_cp (map of_char ''HYENA'')"
    by code_simp
  have h2: "map lower_cp [map of_char ''Hyena''] = map lower_cp [map of_char ''hYENA'']"
    by code_simp
  have e: "fst (gen_unique_id_cp (map of_char ''HYENA'')
        (id_calls_cp [map of_char ''hYENA''] fresh_counts_cp)) = map of_char ''Hy02''"
    by code_simp
  show ?thesis
    using gen_unique_id_case_insensitive [OF a h1 h2, of fresh_counts_cp] e by simp
qed

text \<open>
  Claim C10 as stated fails outside ASCII: the strings U+212A "udu" and "kudu" have the same
  lower case, so they share a counter, but the first call returns "Ku01" for the one and
  U+212A "u01" for the other.
\<close>

theorem kelvin_sign_other_identifier:
  "lower_cp [0x212A, 0x75, 0x64, 0x75] = lower_cp [0x6B, 0x75, 0x64, 0x75] \<and>
   fst (gen_unique_id_cp [0x6B, 0x75, 0x64, 0x75] fresh_counts_cp) = [0x4B, 0x75, 0x30, 0x31] \<and>
   fst (gen_unique_id_cp [0x212A, 0x75, 0x64, 0x75] fresh_counts_cp) = [0x212A, 0x75, 0x30, 0x31]"
  by code_simp

section \<open>Properties of the Birth Date Deriver\<close>

text \<open>
  Claim C3. For an age that converts to the integer \<open>a\<close>, in the year \<open>Y\<close>, the Birth Date
  Deriver returns the decimal \<open>Y - a\<close>, a hyphen, and 03-21, 06-21, 09-21 or 12-21 when the
  lower-cased season is spring, summer, fall or winter, and 01-01 for every other season;
  so age 4 gives \<open>Y - 4\<close> with 03-21 for "spring" and with 01-01 for "bogus", "unknown" and
  the empty season.
\<close>

theorem gen_birth_date_table:
  "(to_int v = Some a \<longrightarrow>
     gen_birth_date Y v s =
       Inr (py_str (Y - a) @ ''-'' @
            (if py_lower s = ''spring'' then ''03-21''
             else if py_lower s = ''summer'' then ''06-21''
             else if py_lower s = ''fall'' then ''09-21''
             else if py_lower s = ''winter'' then ''12-21''
             else ''01-01''))) \<and>
   gen_birth_date Y (PyInt 4) ''spring'' = Inr (py_str (Y - 4) @ ''-03-21'') \<and>
   gen_birth_date Y (PyInt 4) ''bogus'' = Inr (py_str (Y - 4) @ ''-01-01'') \<and>
   gen_birth_date Y (PyInt 4) ''unknown'' = Inr (py_str (Y - 4) @ ''-01-01'') \<and>
   gen_birth_date Y (PyInt 4) [] = Inr (py_str (Y - 4) @ ''-01-01'')"
  by (simp add: gen_birth_date_def season_dates_def Let_def py_lower_def lower_char_def)

theorem gen_birth_date_table_witness:
  "to_int (PyStr '' 4'') = Some 4 \<and>
   gen_birth_date 2026 (PyStr '' 4'') ''Spring'' = Inr ''2022-03-21'' \<and>
   gen_birth_date 2026 (PyInt 30) ''WINTER'' = Inr ''1996-12-21'' \<and>
   gen_birth_date 2026 (PyInt 4) ''autumn'' = Inr ''2022-01-01''"
proof -
  have h: "to_int (PyStr '' 4'') = Some 4" by code_simp
  have e1: "py_str (2026 - 4) @ ''-'' @
            (if py_lower ''Spring'' = ''spring'' then ''03-21''
             else if py_lower ''Spring'' = ''summer'' then ''06-21''
             else if py_lower ''Spring'' = ''fall'' then ''09-21''
             else if py_lower ''Spring'' = ''winter'' then ''12-21''
             else ''01-01'') = ''2022-03-21''"
    by code_simp
  have e2: "gen_birth_date 2026 (PyInt 30) ''WINTER'' = Inr ''1996-12-21''" by code_simp
  have e3: "gen_birth_date 2026 (PyInt 4) ''autumn'' = Inr ''2022-01-01''" by code_simp
  from gen_birth_date_table [of "PyStr '' 4''" 4 2026 "''Spring''"] h
  have "gen_birth_date 2026 (PyStr '' 4'') ''Spring'' = Inr ''2022-03-21''"
    by (simp only: e1)
  with h e2 e3 show ?thesis by simp
qed

section \<open>Properties of the Record Parser\<close>

text \<open>
  Claim C2. The line "4 year old female hyena, born in spring, tan color, 70 pounds, from
  Friguia Park, Tunisia", as read from the file with its line end, is not blank, and parsing
  it once stripped yields age 4, sex "female", species "hyena", season "spring", color
  "tan color", weight "70 pounds" and origin "from Friguia Park, Tunisia": the segments from
  the fifth on are joined again with a comma and a space.
\<close>

theorem parse_line_hyena:
  "py_strip ''4 year old female hyena, born in spring, tan color, 70 pounds, from Friguia Park, Tunisia\<newline>'' \<noteq> [] \<and>
   parse_line (py_strip ''4 year old female hyena, born in spring, tan color, 70 pounds, from Friguia Park, Tunisia\<newline>'') =
     Inr \<lparr>age = 4, sex = ''female'', species = ''hyena'', season = ''spring'',
          color = ''tan color'', weight = ''70 pounds'',
          origin = ''from Friguia Park, Tunisia''\<rparr> \<and>
   drop 4 (map py_strip (py_split_sep CHR '','' (py_strip ''4 year old female hyena, born in spring, tan color, 70 pounds, from Friguia Park, Tunisia\<newline>''))) =
     [''from Friguia Park'', ''Tunisia'']"
  by code_simp

lemma py_index_0: "xs \<noteq> [] \<Longrightarrow> py_index xs 0 = Inr (xs ! 0)"
  by (simp add: py_index_def)

lemma py_index_0_Nil: "py_index [] 0 = Inl IndexError"
  by (simp add: py_index_def)

lemma py_index_1: "py_index xs 1 = (if 1 < length xs then Inr (xs ! 1) else Inl IndexError)"
  by (simp add: py_index_def)

lemma py_index_2: "py_index xs 2 = (if 2 < length xs then Inr (xs ! 2) else Inl IndexError)"
  by (simp add: py_index_def)

lemma py_index_3: "py_index xs 3 = (if 3 < length xs then Inr (xs ! 3) else Inl IndexError)"
  by (simp add: py_index_def)

lemma py_index_last: "py_index xs (- 1) = (if xs = [] then Inl IndexError else Inr (last xs))"
proof (cases xs rule: rev_cases)
  case Nil
  then show ?thesis by (simp add: py_index_def)
next
  case (snoc ys y)
  then show ?thesis by (simp add: py_index_def)
qed

lemma split_sep_nonempty: "py_split_sep sep s \<noteq> []"
  by (induction s) (auto split: list.splits)

lemma bind_err_Inr: "bind_err (Inr x) f = f x"
  by (simp add: bind_err_def)

lemma bind_err_Inl: "bind_err (Inl e) f = Inl e"
  by (simp add: bind_err_def)

lemma parse_line_ok:
  assumes "parts = map py_strip (py_split_sep CHR '','' line)"
    and "ts = py_split (parts ! 0)"
    and "4 \<le> length ts" and "py_int (ts ! 0) = Some n" and "4 \<le> length parts"
  shows "parse_line line =
     Inr \<lparr>age = n, sex = ts ! 3, species = last ts,
          season = (if py_in ''born in'' (parts ! 1)
                    then py_strip (py_replace ''born in'' [] (parts ! 1)) else ''unknown''),
          color = parts ! 2, weight = parts ! 3, origin = py_join '', '' (drop 4 parts)\<rparr>"
proof -
  from assms(5) have "parts \<noteq> []" by auto
  with assms(5) have p: "py_index parts 0 = Inr (parts ! 0)" "py_index parts 1 = Inr (parts ! 1)"
    "py_index parts 2 = Inr (parts ! 2)" "py_index parts 3 = Inr (parts ! 3)"
    by (simp_all add: py_index_0 py_index_1 py_index_2 py_index_3)
  from assms(3) have "ts \<noteq> []" by auto
  with assms(3) have t: "py_index ts 0 = Inr (ts ! 0)" "py_index ts 3 = Inr (ts ! 3)"
    "py_index ts (- 1) = Inr (last ts)"
    by (simp_all add: py_index_0 py_index_3 py_index_last)
  show ?thesis
    unfolding parse_line_def Let_def assms(1) [symmetric]
    by (simp only: p bind_err_Inr assms(2) [symmetric] t assms(4) option.case)
qed

lemma parse_line_few_tokens:
  assumes "parts = map py_strip (py_split_sep CHR '','' line)"
    and "ts = py_split (parts ! 0)"
    and "length ts < 4"
  shows "parse_line line =
     Inl (if ts \<noteq> [] \<and> py_int (ts ! 0) = None then ValueError else IndexError)"
proof -
  have "parts \<noteq> []" using split_sep_nonempty [of "CHR '',''" line] by (simp add: assms(1))
  then have p: "py_index parts 0 = Inr (parts ! 0)" by (rule py_index_0)
  have t3: "py_index ts 3 = Inl IndexError"
    using assms(3) by (simp add: py_index_3)
  show ?thesis
  proof (cases "ts = []")
    case True
    then have "py_index ts 0 = Inl IndexError" by (simp add: py_index_0_Nil)
    with True show ?thesis
      unfolding parse_line_def Let_def assms(1) [symmetric]
      by (simp only: p bind_err_Inr assms(2) [symmetric] bind_err_Inl) simp
  next
    case False
    then have t0: "py_index ts 0 = Inr (ts ! 0)" by (rule py_index_0)
    show ?thesis
    proof (cases "py_int (ts ! 0)")
      case None
      with False show ?thesis
        unfolding parse_line_def Let_def assms(1) [symmetric]
        by (simp only: p bind_err_Inr assms(2) [symmetric] t0 option.case bind_err_Inl) simp
    next
      case (Some n)
      with False show ?thesis
        unfolding parse_line_def Let_def assms(1) [symmetric]
        by (simp only: p bind_err_Inr assms(2) [symmetric] t0 t3 option.case bind_err_Inl) simp
    qed
  qed
qed

lemma parse_line_few_parts:
  assumes "parts = map py_strip (py_split_sep CHR '','' line)"
    and "ts = py_split (parts ! 0)"
    and "length parts < 4"
  shows "parse_line line =
     Inl (if ts \<noteq> [] \<and> py_int (ts ! 0) = None then ValueError else IndexError)"
proof (cases "length ts < 4")
  case True
  with assms(1,2) show ?thesis by (rule parse_line_few_tokens)
next
  case False
  then have ne: "ts \<noteq> []" by auto
  have "parts \<noteq> []" using split_sep_nonempty [of "CHR '',''" line] by (simp add: assms(1))
  then have p: "py_index parts 0 = Inr (parts ! 0)" by (rule py_index_0)
  from False ne have t: "py_index ts 0 = Inr (ts ! 0)" "py_index ts 3 = Inr (ts ! 3)"
    "py_index ts (- 1) = Inr (last ts)"
    by (simp_all add: py_index_0 py_index_3 py_index_last)
  from assms(3) have p3: "py_index parts 3 = Inl IndexError" by (simp add: py_index_3)
  show ?thesis
  proof (cases "py_int (ts ! 0)")
    case None
    with ne show ?thesis
      unfolding parse_line_def Let_def assms(1) [symmetric]
      by (simp only: p bind_err_Inr assms(2) [symmetric] t option.case bind_err_Inl) simp
  next
    case (Some n)
    have "bind_err (py_index parts 1) (\<lambda>part1. bind_err (py_index parts 2) (\<lambda>color.
            bind_err (py_index parts 3) (f part1 color))) = Inl IndexError" for f :: "string \<Rightarrow> string \<Rightarrow> string \<Rightarrow> py_error + animal"
      by (simp add: py_index_1 py_index_2 p3 bind_err_def)
    with Some ne show ?thesis
      unfolding parse_line_def Let_def assms(1) [symmetric]
      by (simp only: p bind_err_Inr assms(2) [symmetric] t option.case bind_err_Inl) simp
  qed
qed

text \<open>
  Claim C9, as amended. Let \<open>ts\<close> be the whitespace tokens of the first comma segment of a
  line. When there are four tokens or more, however many, the first converts to an integer
  and the line has four comma segments or more, the Record Parser does not fault: the age is
  token 0, the sex is token 3 and the species is the last token. When there are fewer than
  four tokens it faults: with a conversion error when there is a first token that does not
  convert, with an index error otherwise.
\<close>

theorem parse_line_token_count:
  "parts = map py_strip (py_split_sep CHR '','' line) \<Longrightarrow> ts = py_split (parts ! 0) \<Longrightarrow>
     (4 \<le> length ts \<and> py_int (ts ! 0) = Some n \<and> 4 \<le> length parts \<longrightarrow>
        parse_line line =
          Inr \<lparr>age = n, sex = ts ! 3, species = last ts,
               season = (if py_in ''born in'' (parts ! 1)
                         then py_strip (py_replace ''born in'' [] (parts ! 1)) else ''unknown''),
               color = parts ! 2, weight = parts ! 3, origin = py_join '', '' (drop 4 parts)\<rparr>) \<and>
     (length ts < 4 \<longrightarrow>
        parse_line line =
          Inl (if ts \<noteq> [] \<and> py_int (ts ! 0) = None then ValueError else IndexError))"
  using parse_line_ok [of parts line ts n] parse_line_few_tokens [of parts line ts]
  by blast

theorem parse_line_token_count_witness:
  "parse_line ''4 year old spayed female hyena, born in spring, tan color, 70 pounds, from Zoo'' =
     Inr \<lparr>age = 4, sex = ''spayed'', species = ''hyena'', season = ''spring'',
          color = ''tan color'', weight = ''70 pounds'', origin = ''from Zoo''\<rparr> \<and>
   parse_line ''four hyenas, born in spring, tan color, 70 pounds, from Zoo'' = Inl ValueError"
proof -
  have p1: "[''4 year old spayed female hyena'', ''born in spring'', ''tan color'',
             ''70 pounds'', ''from Zoo''] =
            map py_strip (py_split_sep CHR '',''
              ''4 year old spayed female hyena, born in spring, tan color, 70 pounds, from Zoo'')"
    by code_simp
  have t1: "[''4'', ''year'', ''old'', ''spayed'', ''female'', ''hyena''] =
            py_split ([''4 year old spayed female hyena'', ''born in spring'', ''tan color'',
             ''70 pounds'', ''from Zoo''] ! 0)"
    by code_simp
  have n1: "py_int ([''4'', ''year'', ''old'', ''spayed'', ''female'', ''hyena''] ! 0) = Some 4"
    by code_simp
  have s1: "(if py_in ''born in'' ([''4 year old spayed female hyena'', ''born in spring'',
                ''tan color'', ''70 pounds'', ''from Zoo''] ! 1)
             then py_strip (py_replace ''born in'' [] ([''4 year old spayed female hyena'',
                ''born in spring'', ''tan color'', ''70 pounds'', ''from Zoo''] ! 1))
             else ''unknown'') = ''spring''"
    by code_simp
  have a: "parse_line ''4 year old spayed female hyena, born in spring, tan color, 70 pounds, from Zoo'' =
     Inr \<lparr>age = 4, sex = ''spayed'', species = ''hyena'', season = ''spring'',
          color = ''tan color'', weight = ''70 pounds'', origin = ''from Zoo''\<rparr>"
    using parse_line_token_count [OF p1 t1, of 4] n1 s1 by simp
  have p2: "[''four hyenas'', ''born in spring'', ''tan color'', ''70 pounds'', ''from Zoo''] =
            map py_strip (py_split_sep CHR '',''
              ''four hyenas, born in spring, tan color, 70 pounds, from Zoo'')"
    by code_simp
  have t2: "[''four'', ''hyenas''] =
            py_split ([''four hyenas'', ''born in spring'', ''tan color'', ''70 pounds'',
              ''from Zoo''] ! 0)"
    by code_simp
  have n2: "py_int ([''four'', ''hyenas''] ! 0) = None"
    by code_simp
  have b: "parse_line ''four hyenas, born in spring, tan color, 70 pounds, from Zoo'' = Inl ValueError"
    using parse_line_token_count [OF p2 t2, of 0] n2 by simp
  from a b show ?thesis by (rule conjI)
qed

text \<open>
  Claim C9 as stated fails: a first segment of three tokens, "4 year hyena", deviates from
  the pattern in its token count, and the Record Parser faults with an index error.
\<close>

theorem parse_line_three_tokens_faults:
  "py_split (map py_strip (py_split_sep CHR '',''
      ''4 year hyena, born in spring, tan color, 70 pounds, from Friguia Park, Tunisia'') ! 0) =
     [''4'', ''year'', ''hyena''] \<and>
   parse_line ''4 year hyena, born in spring, tan color, 70 pounds, from Friguia Park, Tunisia'' =
     Inl IndexError"
  by code_simp

section \<open>Properties of the run\<close>

lemma process_line_blank: "py_strip raw = [] \<Longrightarrow> process_line today raw st = Inr st"
  by (simp add: process_line_def)

lemma process_line_parse_error:
  "py_strip raw \<noteq> [] \<Longrightarrow> parse_line (py_strip raw) = Inl e \<Longrightarrow> process_line today raw st = Inl e"
  by (simp add: process_line_def bind_err_def)

lemma run_lines_abort:
  assumes "raw \<in> set raws" and "\<And>st. process_line today raw st = Inl e"
  shows "snd (run_lines today raws st) \<noteq> None"
  using assms(1)
proof (induction raws arbitrary: st)
  case Nil
  then show ?case by simp
next
  case (Cons r raws)
  show ?case
  proof (cases "process_line today r st")
    case (Inl e')
    then show ?thesis by simp
  next
    case (Inr st')
    with assms(2) have "r \<noteq> raw" by auto
    with Cons.prems have "raw \<in> set raws" by simp
    then have "snd (run_lines today raws st') \<noteq> None" by (rule Cons.IH)
    with Inr show ?thesis by simp
  qed
qed

lemma process_zoo_data_abort:
  assumes "fs input_file = Some content"
    and "snd (run_lines today (readlines content) \<lparr>species_counts = cnts, species_names = names, habitats = []\<rparr>) \<noteq> None" (is "snd ?run \<noteq> None")
    and "load_names fs names_file = Inr (names, msgs)"
  shows "raised (process_zoo_data today fs no_dir cnts input_file names_file output_file) \<noteq> None \<and>
         files_after (process_zoo_data today fs no_dir cnts input_file names_file output_file) = fs"
proof -
  obtain st e where "?run = (st, Some e)" using assms(2) by (cases ?run) auto
  with assms(1,3) show ?thesis by (simp add: process_zoo_data_def)
qed

lemma split_acc_nonempty:
  "w \<noteq> [] \<or> (\<exists>c\<in>set s. \<not> is_space c) \<Longrightarrow> split_acc w s \<noteq> []"
  by (induction s arbitrary: w) auto

lemma endswith_Names_split:
  assumes "py_endswith line ''Names:''"
  shows "py_split line \<noteq> []"
proof -
  from assms have "drop (length line - length ''Names:'') line = ''Names:''"
    unfolding py_endswith_def by (rule conjunct2)
  then have "CHR '':'' \<in> set (drop (length line - length ''Names:'') line)"
    by (simp only: list.set) simp
  then have "CHR '':'' \<in> set line" by (rule in_set_dropD)
  moreover have "\<not> is_space CHR '':''" by (simp add: is_space_def)
  ultimately show ?thesis
    unfolding py_split_def by (intro split_acc_nonempty) blast
qed

lemma load_loop_total:
  "(cur \<noteq> [] \<longrightarrow> nd cur \<noteq> None) \<Longrightarrow> \<exists>nd'. load_loop raws cur nd = Inr nd'"
proof (induction raws arbitrary: cur nd)
  case Nil
  show ?case by simp
next
  case (Cons raw raws)
  show ?case
  proof (cases "py_endswith (py_strip raw) ''Names:''")
    case True
    then have "py_split (py_strip raw) \<noteq> []" by (rule endswith_Names_split)
    then have i: "py_index (py_split (py_strip raw)) 0 = Inr (py_split (py_strip raw) ! 0)"
      by (rule py_index_0)
    have "\<exists>nd'. load_loop raws (py_lower (py_split (py_strip raw) ! 0))
             (nd(py_lower (py_split (py_strip raw) ! 0) \<mapsto> [])) = Inr nd'"
      by (rule Cons.IH) simp
    with True i show ?thesis by (simp add: Let_def)
  next
    case False
    show ?thesis
    proof (cases "py_strip raw \<noteq> [] \<and> cur \<noteq> []")
      case True
      with Cons.prems obtain ns where ns: "nd cur = Some ns" by auto
      have "\<exists>nd'. load_loop raws cur
             (nd(cur \<mapsto> ns @ map py_strip (py_split_sep CHR '','' (py_strip raw)))) = Inr nd'"
        by (rule Cons.IH) simp
      with False True ns show ?thesis by (simp add: Let_def)
    next
      case no: False
      have "\<exists>nd'. load_loop raws cur nd = Inr nd'"
        using Cons.prems by (rule Cons.IH)
      with False no show ?thesis by (auto simp add: Let_def)
    qed
  qed
qed

lemma load_names_total:
  "\<exists>P. load_names fs p = Inr (P, if fs p = None then [''Error: '' @ p @ '' not found.''] else [])"
proof (cases "fs p")
  case None
  then show ?thesis by (simp add: load_names_def)
next
  case (Some content)
  obtain nd where "load_loop (readlines content) [] Map.empty = Inr nd"
    using load_loop_total [of "[]" Map.empty "readlines content"] by auto
  with Some show ?thesis by (simp add: load_names_def)
qed

lemma load_names_missing:
  "fs p = None \<Longrightarrow> load_names fs p = Inr (Map.empty, [''Error: '' @ p @ '' not found.''])"
  by (simp add: load_names_def)

text \<open>
  Claim C6, as amended. When the input file does not exist, the run writes no file, no
  exception leaves it, and what it prints is the messages of the Name Pool Loader followed
  by the one message "Error: Input file not found.": exactly one error notification when
  the names file exists, two when the names file is missing as well.
\<close>

theorem missing_input_file:
  "fs input_file = None \<Longrightarrow>
     files_after (process_zoo_data today fs no_dir cnts input_file names_file output_file) = fs \<and>
     raised (process_zoo_data today fs no_dir cnts input_file names_file output_file) = None \<and>
     printed (process_zoo_data today fs no_dir cnts input_file names_file output_file) =
       (if fs names_file = None then [''Error: '' @ names_file @ '' not found.''] else []) @
       [''Error: Input file not found.'']"
proof -
  assume a: "fs input_file = None"
  obtain P where "load_names fs names_file =
      Inr (P, if fs names_file = None then [''Error: '' @ names_file @ '' not found.''] else [])"
    using load_names_total [of fs names_file] by auto
  with a show ?thesis by (simp add: process_zoo_data_def)
qed

theorem missing_input_file_witness:
  "names_only ''arrivingAnimals.txt'' = None \<and>
   files_after (process_zoo_data today_example names_only none_missing fresh_counts
      ''arrivingAnimals.txt'' ''animalNames.txt'' ''zooPopulation.txt'') = names_only \<and>
   raised (process_zoo_data today_example names_only none_missing fresh_counts
      ''arrivingAnimals.txt'' ''animalNames.txt'' ''zooPopulation.txt'') = None \<and>
   printed (process_zoo_data today_example names_only none_missing fresh_counts
      ''arrivingAnimals.txt'' ''animalNames.txt'' ''zooPopulation.txt'') =
     [''Error: Input file not found.'']"
proof -
  have h: "names_only ''arrivingAnimals.txt'' = None"
    by (simp add: names_only_def)
  have n: "names_only ''animalNames.txt'' \<noteq> None"
    by (simp add: names_only_def)
  show ?thesis
    using missing_input_file [where fs = names_only and input_file = "''arrivingAnimals.txt''"
        and today = today_example and no_dir = none_missing and cnts = fresh_counts
        and names_file = "''animalNames.txt''" and output_file = "''zooPopulation.txt''"] h n
    by simp
qed

text \<open>
  Claim C6 as stated fails: when the names file is missing too, the run with a missing input
  file prints two error notifications.
\<close>

theorem missing_both_files_two_messages:
  "no_files ''arrivingAnimals.txt'' = None \<and>
   printed (process_zoo_data today_example no_files none_missing fresh_counts
      ''arrivingAnimals.txt'' ''animalNames.txt'' ''zooPopulation.txt'') =
     [''Error: animalNames.txt not found.'', ''Error: Input file not found.'']"
  by (simp add: no_files_def process_zoo_data_def load_names_def)

text \<open>
  Claim C8, as amended. A blank input line is skipped and changes nothing. A non-blank line
  with fewer than four comma segments makes the loop body raise: a conversion error when
  the first segment has a first token that does not convert to an integer, an index error
  otherwise. The exception is not caught: a run whose input file holds such a line ends with
  an exception and writes no file.
\<close>

theorem short_line_aborts:
  "(py_strip raw = [] \<longrightarrow>
      process_line today raw st = Inr st \<and>
      run_lines today (raw # rest) st = run_lines today rest st) \<and>
   (py_strip raw \<noteq> [] \<and> length (py_split_sep CHR '','' (py_strip raw)) < 4 \<longrightarrow>
      process_line today raw st =
        Inl (if py_split (map py_strip (py_split_sep CHR '','' (py_strip raw)) ! 0) \<noteq> [] \<and>
                py_int (py_split (map py_strip (py_split_sep CHR '','' (py_strip raw)) ! 0) ! 0) = None
             then ValueError else IndexError) \<and>
      (fs input_file = Some content \<and> raw \<in> set (readlines content) \<longrightarrow>
         raised (process_zoo_data today fs no_dir cnts input_file names_file output_file) \<noteq> None \<and>
         files_after (process_zoo_data today fs no_dir cnts input_file names_file output_file) = fs))"
proof (intro conjI impI)
  assume "py_strip raw = []"
  then have b: "process_line today raw st = Inr st" by (rule process_line_blank)
  then show "process_line today raw st = Inr st" .
  from b show "run_lines today (raw # rest) st = run_lines today rest st" by simp
next
  let ?e = "if py_split (map py_strip (py_split_sep CHR '','' (py_strip raw)) ! 0) \<noteq> [] \<and>
                py_int (py_split (map py_strip (py_split_sep CHR '','' (py_strip raw)) ! 0) ! 0) = None
             then ValueError else IndexError"
  assume a: "py_strip raw \<noteq> [] \<and> length (py_split_sep CHR '','' (py_strip raw)) < 4"
  then have "length (map py_strip (py_split_sep CHR '','' (py_strip raw))) < 4" by simp
  then have "parse_line (py_strip raw) = Inl ?e"
    by (rule parse_line_few_parts [OF refl refl])
  with a have e: "process_line today raw st' = Inl ?e" for st'
    by (intro process_line_parse_error) simp_all
  then show "process_line today raw st = Inl ?e" .
  assume f: "fs input_file = Some content \<and> raw \<in> set (readlines content)"
  obtain P msgs where l: "load_names fs names_file = Inr (P, msgs)"
    using load_names_total [of fs names_file] by blast
  from f e have "snd (run_lines today (readlines content)
      \<lparr>species_counts = cnts, species_names = P, habitats = []\<rparr>) \<noteq> None"
    by (intro run_lines_abort [of raw _ today ?e]) simp_all
  with f l have r: "raised (process_zoo_data today fs no_dir cnts input_file names_file output_file) \<noteq> None \<and>
         files_after (process_zoo_data today fs no_dir cnts input_file names_file output_file) = fs"
    by (intro process_zoo_data_abort) simp_all
  from r show "raised (process_zoo_data today fs no_dir cnts input_file names_file output_file) \<noteq> None" ..
  from r show "files_after (process_zoo_data today fs no_dir cnts input_file names_file output_file) = fs" ..
qed

theorem short_line_aborts_witness:
  "process_line today_example ''   \<newline>'' fresh_state = Inr fresh_state \<and>
   process_line today_example ''4 year old female hyena, born in spring\<newline>'' fresh_state =
     Inl IndexError \<and>
   raised (process_zoo_data today_example two_segments none_missing fresh_counts
      ''arrivingAnimals.txt'' ''animalNames.txt'' ''zooPopulation.txt'') \<noteq> None \<and>
   files_after (process_zoo_data today_example two_segments none_missing fresh_counts
      ''arrivingAnimals.txt'' ''animalNames.txt'' ''zooPopulation.txt'') = two_segments"
proof -
  have b: "py_strip ''   \<newline>'' = []" by code_simp
  have s: "py_strip ''4 year old female hyena, born in spring\<newline>'' \<noteq> [] \<and>
      length (py_split_sep CHR '','' (py_strip ''4 year old female hyena, born in spring\<newline>'')) < 4"
    by code_simp
  have e: "(if py_split (map py_strip (py_split_sep CHR '',''
                (py_strip ''4 year old female hyena, born in spring\<newline>'')) ! 0) \<noteq> [] \<and>
                py_int (py_split (map py_strip (py_split_sep CHR '',''
                (py_strip ''4 year old female hyena, born in spring\<newline>'')) ! 0) ! 0) = None
             then ValueError else IndexError) = IndexError"
    by code_simp
  have f: "two_segments ''arrivingAnimals.txt'' =
        Some ''\<newline>4 year old female hyena, born in spring\<newline>'' \<and>
      ''4 year old female hyena, born in spring\<newline>'' \<in>
        set (readlines ''\<newline>4 year old female hyena, born in spring\<newline>'')"
    by code_simp
  from b short_line_aborts [where raw = "''   \<newline>''" and today = today_example
      and st = fresh_state]
  have 1: "process_line today_example ''   \<newline>'' fresh_state = Inr fresh_state"
    by blast
  note t = short_line_aborts [where raw = "''4 year old female hyena, born in spring\<newline>''"
      and today = today_example and st = fresh_state and fs = two_segments
      and no_dir = none_missing
      and input_file = "''arrivingAnimals.txt''"
      and content = "''\<newline>4 year old female hyena, born in spring\<newline>''"
      and cnts = fresh_counts and names_file = "''animalNames.txt''"
      and output_file = "''zooPopulation.txt''"]
  from t s e
  have 2: "process_line today_example ''4 year old female hyena, born in spring\<newline>'' fresh_state =
     Inl IndexError"
    by (simp only: simp_thms)
  from t s f
  have 3: "raised (process_zoo_data today_example two_segments none_missing fresh_counts
      ''arrivingAnimals.txt'' ''animalNames.txt'' ''zooPopulation.txt'') \<noteq> None \<and>
   files_after (process_zoo_data today_example two_segments none_missing fresh_counts
      ''arrivingAnimals.txt'' ''animalNames.txt'' ''zooPopulation.txt'') = two_segments"
    by blast
  from 1 2 3 show ?thesis by blast
qed

text \<open>
  Claim C8 as stated fails: the non-blank line "unknown animal, no data" has two comma
  segments, and the exception it raises is the conversion error of its first token, not an
  index error.
\<close>

theorem short_line_conversion_error:
  "py_strip ''unknown animal, no data\<newline>'' \<noteq> [] \<and>
   length (py_split_sep CHR '','' (py_strip ''unknown animal, no data\<newline>'')) = 2 \<and>
   process_line today_example ''unknown animal, no data\<newline>'' fresh_state = Inl ValueError \<and>
   raised (process_zoo_data today_example bad_first_token none_missing fresh_counts
      ''arrivingAnimals.txt'' ''animalNames.txt'' ''zooPopulation.txt'') = Some ValueError"
proof (intro conjI)
  show n: "py_strip ''unknown animal, no data\<newline>'' \<noteq> []"
    by code_simp
  show "length (py_split_sep CHR '','' (py_strip ''unknown animal, no data\<newline>'')) = 2"
    by code_simp
  have "parse_line (py_strip ''unknown animal, no data\<newline>'') = Inl ValueError"
    by code_simp
  with n show "process_line today_example ''unknown animal, no data\<newline>'' fresh_state =
      Inl ValueError"
    by (rule process_line_parse_error)
  show "raised (process_zoo_data today_example bad_first_token none_missing fresh_counts
      ''arrivingAnimals.txt'' ''animalNames.txt'' ''zooPopulation.txt'') = Some ValueError"
    by code_simp
qed

lemma run_lines_snoc:
  "run_lines today (raws @ [raw]) st =
     (case run_lines today raws st of
        (st', Some e) \<Rightarrow> (st', Some e)
      | (st', None) \<Rightarrow>
          (case process_line today raw st' of Inl e \<Rightarrow> (st', Some e) | Inr st'' \<Rightarrow> (st'', None)))"
  by (induction raws arbitrary: st) (auto split: sum.splits)

lemma add_animal_eq:
  "add_animal today a st =
     Inr \<lparr>species_counts = snd (gen_unique_id (species a) (species_counts st)),
          species_names = snd (take_name (species_names st) (key_of a)),
          habitats = habitats_append (key_of a)
            (output_line (fst (gen_unique_id (species a) (species_counts st)))
               (fst (take_name (species_names st) (key_of a)))
               (py_str (year today - age a) @
                (case season_dates (py_lower (season a)) of Some d \<Rightarrow> d | None \<Rightarrow> ''-01-01''))
               (color a) (sex a) (weight a) (origin a) (isoformat today))
            (habitats st)\<rparr>"
  by (simp add: add_animal_def gen_birth_date_def bind_err_def take_name_def key_of_def
      Let_def split_def split: option.splits list.splits)

lemma take_name_pool:
  assumes "names = (\<lambda>k'. map_option (drop (N k')) (P k'))"
  shows "fst (take_name names k) = pool_name P k (N k)"
    and "snd (take_name names k) =
           (\<lambda>k'. map_option (drop (if k' = k then Suc (N k') else N k')) (P k'))"
proof -
  show "fst (take_name names k) = pool_name P k (N k)"
  proof (cases "P k")
    case None
    then show ?thesis by (simp add: take_name_def pool_name_def assms)
  next
    case (Some ns)
    show ?thesis
    proof (cases "N k < length ns")
      case True
      then have "drop (N k) ns = ns ! N k # drop (Suc (N k)) ns"
        by (simp add: Cons_nth_drop_Suc)
      with Some True show ?thesis by (simp add: take_name_def pool_name_def assms)
    next
      case False
      with Some show ?thesis by (simp add: take_name_def pool_name_def assms)
    qed
  qed
  show "snd (take_name names k) =
           (\<lambda>k'. map_option (drop (if k' = k then Suc (N k') else N k')) (P k'))"
  proof (cases "P k")
    case None
    then show ?thesis by (auto simp add: take_name_def assms)
  next
    case (Some ns)
    show ?thesis
    proof (cases "N k < length ns")
      case True
      then have "drop (N k) ns = ns ! N k # drop (Suc (N k)) ns"
        by (simp add: Cons_nth_drop_Suc)
      with Some True show ?thesis by (auto simp add: take_name_def assms)
    next
      case False
      with Some show ?thesis by (auto simp add: take_name_def assms)
    qed
  qed
qed

lemma of_key_snoc:
  "of_key k (as @ [a]) = of_key k as @ (if key_of a = k then [a] else [])"
  by (simp add: of_key_def)

lemma habitat_lines_snoc:
  "habitat_lines today cnts P k (as @ [a]) =
     habitat_lines today cnts P k as @
     (if key_of a = k
      then [report_line today cnts (length (of_key k as)) (pool_name P k (length (of_key k as))) a]
      else [])"
  by (simp add: habitat_lines_def of_key_snoc enumerate_append_eq)

lemma first_seen_snoc:
  "first_seen (xs @ [x]) = (if x \<in> set xs then first_seen xs else first_seen xs @ [x])"
  by (simp add: first_seen_def)

lemma set_first_seen: "set (first_seen xs) = set xs"
  by (simp add: first_seen_def)

lemma map_of_expected:
  "map_of (expected_habitats today cnts P as) k =
     (if k \<in> set (map key_of as) then Some (habitat_lines today cnts P k as) else None)"
  by (simp add: expected_habitats_def map_of_map_restrict restrict_map_def set_first_seen)

lemma of_key_Nil: "k \<notin> set (map key_of as) \<Longrightarrow> of_key k as = []"
  by (auto simp add: of_key_def filter_empty_conv)

lemma habitats_append_expected:
  assumes "k = key_of a"
    and "line = report_line today cnts (length (of_key k as)) (pool_name P k (length (of_key k as))) a"
  shows "habitats_append k line (expected_habitats today cnts P as) =
           expected_habitats today cnts P (as @ [a])"
proof (cases "k \<in> set (map key_of as)")
  case True
  then have m: "map_of (expected_habitats today cnts P as) k \<noteq> None"
    by (simp add: map_of_expected)
  from True have f: "first_seen (map key_of (as @ [a])) = first_seen (map key_of as)"
    by (simp add: first_seen_snoc assms(1))
  have "map (\<lambda>(k', ls). if k' = k then (k', ls @ [line]) else (k', ls))
          (expected_habitats today cnts P as) =
        map (\<lambda>k'. (k', habitat_lines today cnts P k' (as @ [a]))) (first_seen (map key_of as))"
    unfolding expected_habitats_def map_map
    by (rule map_cong) (auto simp add: habitat_lines_snoc assms)
  with m f show ?thesis
    by (simp add: habitats_append_def expected_habitats_def)
next
  case False
  then have m: "map_of (expected_habitats today cnts P as) k = None"
    by (simp add: map_of_expected)
  from False have f: "first_seen (map key_of (as @ [a])) = first_seen (map key_of as) @ [k]"
    by (simp add: first_seen_snoc assms(1))
  from False have e: "habitat_lines today cnts P k as = []"
    by (simp add: habitat_lines_def of_key_Nil)
  have "map (\<lambda>(k', ls). if k' = k then (k', ls @ [line]) else (k', ls))
          (expected_habitats today cnts P as) =
        map (\<lambda>k'. (k', habitat_lines today cnts P k' (as @ [a]))) (first_seen (map key_of as))"
    unfolding expected_habitats_def map_map
    by (rule map_cong) (auto simp add: habitat_lines_snoc assms)
  moreover have "habitat_lines today cnts P k (as @ [a]) = [line]"
    by (simp add: habitat_lines_snoc e assms(1) [symmetric] assms(2))
  ultimately show ?thesis using m f
    by (simp add: habitats_append_def expected_habitats_def)
qed

lemma uid_reached:
  "fst (gen_unique_id (species a) (id_calls (map species as) cnts)) =
     py_capitalize (take 2 (species a)) @
     py_zfill 2 (py_str (count_of cnts (key_of a) + int (length (of_key (key_of a) as)) + 1))"
proof -
  have "filter (\<lambda>t. py_lower t = key_of a) (map species as) = map species (of_key (key_of a) as)"
    by (simp add: filter_map of_key_def key_of_def o_def)
  then have "length (filter (\<lambda>t. py_lower t = key_of a) (map species as)) =
      length (of_key (key_of a) as)"
    by simp
  then show ?thesis
    by (simp add: gen_unique_id_fst count_of_id_calls key_of_def)
qed

lemma reached_step:
  assumes "reached today cnts P as st"
  shows "\<exists>st'. add_animal today a st = Inr st' \<and> reached today cnts P (as @ [a]) st'"
proof -
  let ?k = "key_of a"
  let ?n = "length (of_key ?k as)"
  from assms have c: "species_counts st = id_calls (map species as) cnts"
    and n: "species_names st = (\<lambda>k. map_option (drop (length (of_key k as))) (P k))"
    and h: "habitats st = expected_habitats today cnts P as"
    by (simp_all add: reached_def)
  have c': "snd (gen_unique_id (species a) (species_counts st)) =
      id_calls (map species (as @ [a])) cnts"
    by (simp add: c id_calls_def)
  have n1: "fst (take_name (species_names st) ?k) = pool_name P ?k ?n"
    using n by (rule take_name_pool(1))
  have "snd (take_name (species_names st) ?k) =
      (\<lambda>k'. map_option (drop (if k' = ?k then Suc (length (of_key k' as))
                              else length (of_key k' as))) (P k'))"
    using n by (rule take_name_pool(2))
  also have "\<dots> = (\<lambda>k. map_option (drop (length (of_key k (as @ [a])))) (P k))"
    by (rule ext) (simp add: of_key_snoc)
  finally have n2: "snd (take_name (species_names st) ?k) =
      (\<lambda>k. map_option (drop (length (of_key k (as @ [a])))) (P k))" .
  have l: "output_line (fst (gen_unique_id (species a) (species_counts st)))
               (fst (take_name (species_names st) ?k))
               (py_str (year today - age a) @
                (case season_dates (py_lower (season a)) of Some d \<Rightarrow> d | None \<Rightarrow> ''-01-01''))
               (color a) (sex a) (weight a) (origin a) (isoformat today) =
           report_line today cnts ?n (pool_name P ?k ?n) a"
    by (simp only: c uid_reached n1 report_line_def)
  have h': "habitats_append ?k (report_line today cnts ?n (pool_name P ?k ?n) a)
      (habitats st) = expected_habitats today cnts P (as @ [a])"
    unfolding h by (rule habitats_append_expected) simp_all
  show ?thesis
    unfolding add_animal_eq l h' c' n2 by (simp add: reached_def)
qed

lemma parsed_snoc:
  "parsed (raws @ [raw]) =
     parsed raws @ (if py_strip raw = [] then []
                    else (case parse_line (py_strip raw) of Inl e \<Rightarrow> [] | Inr a \<Rightarrow> [a]))"
  by (simp add: parsed_def)

lemma reached_initial:
  "reached today cnts P [] \<lparr>species_counts = cnts, species_names = P, habitats = []\<rparr>"
  by (auto simp add: reached_def id_calls_def expected_habitats_def first_seen_def of_key_def
      option.map_ident)

lemma run_lines_reached:
  "run_lines today raws \<lparr>species_counts = cnts, species_names = P, habitats = []\<rparr> = (st, None) \<Longrightarrow>
     reached today cnts P (parsed raws) st"
proof (induction raws arbitrary: st rule: rev_induct)
  case Nil
  then show ?case using reached_initial [of today cnts P] by (simp add: parsed_def)
next
  case (snoc raw raws)
  let ?st0 = "\<lparr>species_counts = cnts, species_names = P, habitats = []\<rparr>"
  from snoc.prems obtain st1 where r: "run_lines today raws ?st0 = (st1, None)"
    and p: "process_line today raw st1 = Inr st"
    by (auto simp add: run_lines_snoc split: prod.splits option.splits sum.splits)
  from r have i: "reached today cnts P (parsed raws) st1" by (rule snoc.IH)
  show ?case
  proof (cases "py_strip raw = []")
    case True
    with p have "st = st1" by (simp add: process_line_def)
    with i True show ?thesis by (simp add: parsed_snoc)
  next
    case False
    with p obtain a where a: "parse_line (py_strip raw) = Inr a"
      and d: "add_animal today a st1 = Inr st"
      by (auto simp add: process_line_def bind_err_def split: sum.splits)
    from reached_step [OF i, of a] d have "reached today cnts P (parsed raws @ [a]) st"
      by auto
    with False a show ?thesis by (simp add: parsed_snoc)
  qed
qed

lemma run_lines_ok:
  "(\<forall>raw\<in>set raws. py_strip raw \<noteq> [] \<longrightarrow> \<not> isl (parse_line (py_strip raw))) \<Longrightarrow>
     snd (run_lines today raws st) = None"
proof (induction raws arbitrary: st)
  case Nil
  show ?case by simp
next
  case (Cons raw raws)
  show ?case
  proof (cases "py_strip raw = []")
    case True
    then have "process_line today raw st = Inr st" by (simp add: process_line_def)
    with Cons show ?thesis by simp
  next
    case False
    with Cons.prems obtain a where "parse_line (py_strip raw) = Inr a"
      by (cases "parse_line (py_strip raw)") auto
    with False obtain st' where "process_line today raw st = Inr st'"
      by (simp add: process_line_def bind_err_def add_animal_eq)
    with Cons show ?thesis by simp
  qed
qed

lemma concat_map_if:
  "concat (map (\<lambda>x. if p x then f x else []) xs) = concat (map f (filter p xs))"
  by (induction xs) simp_all

lemma write_report_expected:
  "write_report (expected_habitats today cnts P as) =
     concat (map (\<lambda>k. write_habitat k (habitat_lines today cnts P k as))
               (report_order (first_seen (map key_of as))))"
proof -
  have 1: "(\<lambda>sp. case map_of (expected_habitats today cnts P as) sp of
                   None \<Rightarrow> [] | Some animals \<Rightarrow> write_habitat sp animals) =
           (\<lambda>sp. if sp \<in> set (first_seen (map key_of as))
                  then write_habitat sp (habitat_lines today cnts P sp as) else [])"
    by (rule ext) (simp add: map_of_expected set_first_seen)
  have 2: "map (\<lambda>(sp, animals). if sp \<notin> set habitat_order then write_habitat sp animals else [])
             (expected_habitats today cnts P as) =
           map (\<lambda>sp. if sp \<notin> set habitat_order
                      then write_habitat sp (habitat_lines today cnts P sp as) else [])
             (first_seen (map key_of as))"
    by (simp add: expected_habitats_def o_def)
  show ?thesis
    unfolding write_report_def 1 2 concat_map_if report_order_def by simp
qed

lemma process_zoo_data_done:
  assumes "load_names fs names_file = Inr (P, msgs)"
    and "fs input_file = Some content"
    and "snd (run_lines today (readlines content)
               \<lparr>species_counts = cnts, species_names = P, habitats = []\<rparr>) = None"
    and "\<not> open_write_error no_dir output_file"
  shows "process_zoo_data today fs no_dir cnts input_file names_file output_file =
     \<lparr>files_after = fs(output_file \<mapsto>
          concat (map (\<lambda>k. write_habitat k (habitat_lines today cnts P k (parsed (readlines content))))
                    (report_order (first_seen (map key_of (parsed (readlines content))))))),
      counts_after = id_calls (map species (parsed (readlines content))) cnts,
      printed = msgs, raised = None\<rparr>"
proof -
  let ?run = "run_lines today (readlines content)
               \<lparr>species_counts = cnts, species_names = P, habitats = []\<rparr>"
  from assms(3) obtain st where r: "?run = (st, None)" by (cases ?run) auto
  then have "reached today cnts P (parsed (readlines content)) st" by (rule run_lines_reached)
  then have "species_counts st = id_calls (map species (parsed (readlines content))) cnts"
    and "habitats st = expected_habitats today cnts P (parsed (readlines content))"
    by (simp_all add: reached_def)
  with assms(1,2,4) r show ?thesis
    by (simp add: process_zoo_data_def write_report_expected)
qed

lemma raised_None_run:
  assumes "load_names fs names_file = Inr (P, msgs)"
    and "fs input_file = Some content"
    and "raised (process_zoo_data today fs no_dir cnts input_file names_file output_file) = None"
  shows "snd (run_lines today (readlines content)
               \<lparr>species_counts = cnts, species_names = P, habitats = []\<rparr>) = None"
  using assms by (auto simp add: process_zoo_data_def split: prod.splits option.splits if_splits)

lemma write_habitat_nonempty: "write_habitat k ls \<noteq> []"
  by (simp add: write_habitat_def)

lemma report_order_nonempty: "ks \<noteq> [] \<Longrightarrow> report_order ks \<noteq> []"
proof (cases ks)
  case Nil
  moreover assume "ks \<noteq> []"
  ultimately show ?thesis by simp
next
  case (Cons k ks')
  show ?thesis
  proof (cases "k \<in> set habitat_order")
    case True
    with Cons have "\<exists>x\<in>set habitat_order. x \<in> set ks" by auto
    then have "filter (\<lambda>k. k \<in> set ks) habitat_order \<noteq> []"
      by (simp only: filter_empty_conv) blast
    then show ?thesis by (simp add: report_order_def)
  next
    case False
    with Cons show ?thesis by (simp add: report_order_def)
  qed
qed

lemma first_seen_nonempty: "xs \<noteq> [] \<Longrightarrow> first_seen xs \<noteq> []"
  using set_first_seen [of xs] by (cases xs) auto

lemma report_nonempty:
  assumes "as \<noteq> []"
  shows "concat (map (\<lambda>k. write_habitat k (f k)) (report_order (first_seen (map key_of as)))) \<noteq> []"
proof -
  from assms have "report_order (first_seen (map key_of as)) \<noteq> []"
    by (intro report_order_nonempty first_seen_nonempty) simp
  then obtain k ks where "report_order (first_seen (map key_of as)) = k # ks"
    by (cases "report_order (first_seen (map key_of as))") auto
  then show ?thesis by (simp add: write_habitat_nonempty)
qed

lemma parsed_nonempty:
  assumes "raw \<in> set raws" and "py_strip raw \<noteq> []" and "\<not> isl (parse_line (py_strip raw))"
  shows "parsed raws \<noteq> []"
proof -
  from assms(3) obtain a where "parse_line (py_strip raw) = Inr a"
    by (cases "parse_line (py_strip raw)") auto
  with assms(2) have "parsed [raw] = [a]" by (simp add: parsed_def)
  moreover from assms(1) obtain xs ys where "raws = xs @ raw # ys"
    by (auto simp add: in_set_conv_decomp)
  then have "parsed raws = parsed xs @ parsed [raw] @ parsed ys"
    by (simp add: parsed_def)
  ultimately show ?thesis by simp
qed

lemma habitat_lines_no_pool:
  "habitat_lines today cnts Map.empty k as =
     map (\<lambda>(i, a). report_line today cnts i ''Unnamed'' a) (enumerate 0 (of_key k as))"
  by (simp add: habitat_lines_def pool_name_def)

lemma arrivals_all_parse:
  "\<forall>raw\<in>set (readlines arrivals_example).
      py_strip raw \<noteq> [] \<longrightarrow> \<not> isl (parse_line (py_strip raw))"
  by code_simp

lemma parsed_arrivals: "parsed (readlines arrivals_example) = animals_example"
  by code_simp

lemma pool_example_lookup:
  "pool_example ''hyena'' = Some [''Shenzi'', ''Banzai'']"
  "pool_example ''lion'' = Some [''Scar'', ''Mufasa'']"
  "pool_example ''zebra'' = None"
  by code_simp+

lemma run_arrivals:
  "snd (run_lines today_example (readlines arrivals_example)
        \<lparr>species_counts = fresh_counts, species_names = P, habitats = []\<rparr>) = None"
  using arrivals_all_parse by (rule run_lines_ok)

lemma load_names_zoo_files: "load_names zoo_files ''animalNames.txt'' = Inr (pool_example, [])"
proof -
  have "zoo_files ''animalNames.txt'' \<noteq> None" by (simp add: zoo_files_def)
  with load_names_total [of zoo_files "''animalNames.txt''"]
  obtain P where "load_names zoo_files ''animalNames.txt'' = Inr (P, [])" by auto
  then show ?thesis by (simp add: pool_example_def)
qed

text \<open>
  Claim C4. Let the loop over the input lines start from the loaded pool \<open>P\<close> and no habitats,
  and end without an exception. For every species key \<open>k\<close>, the report lines of \<open>k\<close> are those
  of the records of \<open>k\<close> in input order, and record number \<open>i\<close> of them (from 0) carries name
  number \<open>i\<close> of the list loaded for \<open>k\<close>; when that list is exhausted, or none was loaded, it
  carries the placeholder "Unnamed". The pool left for \<open>k\<close> is the loaded list without as many
  names at its front as there were records of \<open>k\<close>: nothing is put back.
\<close>

theorem names_first_in_first_out:
  "run_lines today raws \<lparr>species_counts = cnts, species_names = P, habitats = []\<rparr> = (st, None) \<Longrightarrow>
     map_of (habitats st) k =
       (if of_key k (parsed raws) = [] then None
        else Some (map (\<lambda>(i, a). report_line today cnts i
                                   (case P k of
                                      None \<Rightarrow> ''Unnamed''
                                    | Some ns \<Rightarrow> if i < length ns then ns ! i else ''Unnamed'') a)
                     (enumerate 0 (of_key k (parsed raws))))) \<and>
     species_names st k = map_option (drop (length (of_key k (parsed raws)))) (P k)"
proof -
  assume "run_lines today raws \<lparr>species_counts = cnts, species_names = P, habitats = []\<rparr> = (st, None)"
  then have "reached today cnts P (parsed raws) st" by (rule run_lines_reached)
  then have n: "species_names st = (\<lambda>k. map_option (drop (length (of_key k (parsed raws)))) (P k))"
    and h: "habitats st = expected_habitats today cnts P (parsed raws)"
    by (simp_all add: reached_def)
  have e: "of_key k (parsed raws) = [] \<longleftrightarrow> k \<notin> set (map key_of (parsed raws))"
    by (auto simp add: of_key_def filter_empty_conv)
  show ?thesis
    unfolding n h map_of_expected e habitat_lines_def pool_name_def by simp
qed

theorem names_first_in_first_out_witness:
  "map_of (habitats (fst (run_lines today_example (readlines arrivals_example)
        \<lparr>species_counts = fresh_counts, species_names = pool_example, habitats = []\<rparr>))) ''hyena'' =
     Some [''Hy01; Shenzi; birth date: 2014-09-21; brown color; male; 150 pounds; from Friguia Park, Tunisia; arrived 2026-11-03'',
        ''Hy02; Banzai; birth date: 2020-01-01; black color; female; 105 pounds; from Friguia Park, Tunisia; arrived 2026-11-03'',
        ''Hy03; Unnamed; birth date: 2023-12-21; tan color; female; 90 pounds; from Friguia Park, Tunisia; arrived 2026-11-03''] \<and>
   species_names (fst (run_lines today_example (readlines arrivals_example)
        \<lparr>species_counts = fresh_counts, species_names = pool_example, habitats = []\<rparr>)) ''hyena'' = Some [] \<and>
   species_names (fst (run_lines today_example (readlines arrivals_example)
        \<lparr>species_counts = fresh_counts, species_names = pool_example, habitats = []\<rparr>)) ''lion'' = Some [''Mufasa''] \<and>
   species_names (fst (run_lines today_example (readlines arrivals_example)
        \<lparr>species_counts = fresh_counts, species_names = pool_example, habitats = []\<rparr>)) ''zebra'' = None"
proof -
  have "snd (run_lines today_example (readlines arrivals_example)
        \<lparr>species_counts = fresh_counts, species_names = pool_example, habitats = []\<rparr>) = None"
    by (rule run_arrivals)
  then have h: "run_lines today_example (readlines arrivals_example)
        \<lparr>species_counts = fresh_counts, species_names = pool_example, habitats = []\<rparr> =
      (fst (run_lines today_example (readlines arrivals_example)
        \<lparr>species_counts = fresh_counts, species_names = pool_example, habitats = []\<rparr>), None)"
    by (simp add: prod_eq_iff)
  have e1: "(if of_key ''hyena'' (parsed (readlines arrivals_example)) = [] then None
        else Some (map (\<lambda>(i, a). report_line today_example fresh_counts i
                                   (case pool_example ''hyena'' of
                                      None \<Rightarrow> ''Unnamed''
                                    | Some ns \<Rightarrow> if i < length ns then ns ! i else ''Unnamed'') a)
                     (enumerate 0 (of_key ''hyena'' (parsed (readlines arrivals_example)))))) =
     Some [''Hy01; Shenzi; birth date: 2014-09-21; brown color; male; 150 pounds; from Friguia Park, Tunisia; arrived 2026-11-03'',
        ''Hy02; Banzai; birth date: 2020-01-01; black color; female; 105 pounds; from Friguia Park, Tunisia; arrived 2026-11-03'',
        ''Hy03; Unnamed; birth date: 2023-12-21; tan color; female; 90 pounds; from Friguia Park, Tunisia; arrived 2026-11-03'']"
    unfolding parsed_arrivals pool_example_lookup by code_simp
  have e2: "map_option (drop (length (of_key ''hyena'' (parsed (readlines arrivals_example)))))
      (pool_example ''hyena'') = Some []"
    unfolding parsed_arrivals pool_example_lookup by code_simp
  have e3: "map_option (drop (length (of_key ''lion'' (parsed (readlines arrivals_example)))))
      (pool_example ''lion'') = Some [''Mufasa'']"
    unfolding parsed_arrivals pool_example_lookup by code_simp
  have e4: "map_option (drop (length (of_key ''zebra'' (parsed (readlines arrivals_example)))))
      (pool_example ''zebra'') = None"
    unfolding parsed_arrivals pool_example_lookup by code_simp
  from names_first_in_first_out [OF h, of "''hyena''"]
  have 1: "map_of (habitats (fst (run_lines today_example (readlines arrivals_example)
        \<lparr>species_counts = fresh_counts, species_names = pool_example, habitats = []\<rparr>))) ''hyena'' =
     Some [''Hy01; Shenzi; birth date: 2014-09-21; brown color; male; 150 pounds; from Friguia Park, Tunisia; arrived 2026-11-03'',
        ''Hy02; Banzai; birth date: 2020-01-01; black color; female; 105 pounds; from Friguia Park, Tunisia; arrived 2026-11-03'',
        ''Hy03; Unnamed; birth date: 2023-12-21; tan color; female; 90 pounds; from Friguia Park, Tunisia; arrived 2026-11-03''] \<and>
   species_names (fst (run_lines today_example (readlines arrivals_example)
        \<lparr>species_counts = fresh_counts, species_names = pool_example, habitats = []\<rparr>)) ''hyena'' = Some []"
    unfolding e1 e2 .
  from names_first_in_first_out [OF h, of "''lion''"]
  have 2: "species_names (fst (run_lines today_example (readlines arrivals_example)
        \<lparr>species_counts = fresh_counts, species_names = pool_example, habitats = []\<rparr>)) ''lion'' = Some [''Mufasa'']"
    unfolding e3 by (rule conjunct2)
  from names_first_in_first_out [OF h, of "''zebra''"]
  have 3: "species_names (fst (run_lines today_example (readlines arrivals_example)
        \<lparr>species_counts = fresh_counts, species_names = pool_example, habitats = []\<rparr>)) ''zebra'' = None"
    unfolding e4 by (rule conjunct2)
  from 1 2 3 show ?thesis by blast
qed

text \<open>
  Claim C5. When the run ends without an exception and the output file can be opened, the
  output file holds one group per species key of the input: first the keys hyena, lion, bear, tiger that occur, in this
  order, then every other key in the order of its first record. Each group is its header,
  an empty line, the lines of its records in input order and an empty line. So for an input
  whose keys are first seen in the order lion, hyena, zebra, the file is the group headed
  "Hyena Habitat:", then the one headed "Lion Habitat:", then the one headed
  "Zebra Habitat:".
\<close>

theorem report_in_habitat_order:
  "load_names fs names_file = Inr (P, msgs) \<Longrightarrow> fs input_file = Some content \<Longrightarrow>
   raised (process_zoo_data today fs no_dir cnts input_file names_file output_file) = None \<Longrightarrow>
   \<not> open_write_error no_dir output_file \<Longrightarrow>
   as = parsed (readlines content) \<Longrightarrow>
     files_after (process_zoo_data today fs no_dir cnts input_file names_file output_file) output_file =
       Some (concat (map (\<lambda>k. write_habitat k
                           (map (\<lambda>(i, a). report_line today cnts i (pool_name P k i) a)
                              (enumerate 0 (filter (\<lambda>a. key_of a = k) as))))
               (filter (\<lambda>k. k \<in> set (map key_of as)) [''hyena'', ''lion'', ''bear'', ''tiger''] @
                filter (\<lambda>k. k \<notin> set [''hyena'', ''lion'', ''bear'', ''tiger''])
                  (first_seen (map key_of as))))) \<and>
     (first_seen (map key_of as) = [''lion'', ''hyena'', ''zebra''] \<longrightarrow>
        files_after (process_zoo_data today fs no_dir cnts input_file names_file output_file) output_file =
          Some (''Hyena Habitat:\<newline>\<newline>'' @
                concat (map (\<lambda>l. l @ ''\<newline>'') (habitat_lines today cnts P ''hyena'' as)) @ ''\<newline>'' @
                ''Lion Habitat:\<newline>\<newline>'' @
                concat (map (\<lambda>l. l @ ''\<newline>'') (habitat_lines today cnts P ''lion'' as)) @ ''\<newline>'' @
                ''Zebra Habitat:\<newline>\<newline>'' @
                concat (map (\<lambda>l. l @ ''\<newline>'') (habitat_lines today cnts P ''zebra'' as)) @ ''\<newline>''))"
proof -
  assume l: "load_names fs names_file = Inr (P, msgs)" and i: "fs input_file = Some content"
    and r: "raised (process_zoo_data today fs no_dir cnts input_file names_file output_file) = None"
    and w: "\<not> open_write_error no_dir output_file"
    and a: "as = parsed (readlines content)"
  from l i r have "snd (run_lines today (readlines content)
               \<lparr>species_counts = cnts, species_names = P, habitats = []\<rparr>) = None"
    by (rule raised_None_run)
  with l i w have f: "files_after (process_zoo_data today fs no_dir cnts input_file names_file output_file)
      output_file =
    Some (concat (map (\<lambda>k. write_habitat k (habitat_lines today cnts P k as))
                    (report_order (first_seen (map key_of as)))))"
    unfolding a by (simp add: process_zoo_data_done)
  have o: "report_order (first_seen (map key_of as)) =
      filter (\<lambda>k. k \<in> set (map key_of as)) [''hyena'', ''lion'', ''bear'', ''tiger''] @
      filter (\<lambda>k. k \<notin> set [''hyena'', ''lion'', ''bear'', ''tiger'']) (first_seen (map key_of as))"
    unfolding report_order_def set_first_seen habitat_order_def ..
  have g: "(\<lambda>k. write_habitat k (habitat_lines today cnts P k as)) =
      (\<lambda>k. write_habitat k
                           (map (\<lambda>(i, a). report_line today cnts i (pool_name P k i) a)
                              (enumerate 0 (filter (\<lambda>a. key_of a = k) as))))"
    by (simp add: habitat_lines_def of_key_def)
  have c: "py_capitalize ''hyena'' = ''Hyena''" "py_capitalize ''lion'' = ''Lion''"
    "py_capitalize ''zebra'' = ''Zebra''"
    by code_simp+
  have h: "write_habitat ''hyena'' ls =
        ''Hyena Habitat:\<newline>\<newline>'' @ concat (map (\<lambda>l. l @ ''\<newline>'') ls) @ ''\<newline>''"
      "write_habitat ''lion'' ls =
        ''Lion Habitat:\<newline>\<newline>'' @ concat (map (\<lambda>l. l @ ''\<newline>'') ls) @ ''\<newline>''"
      "write_habitat ''zebra'' ls =
        ''Zebra Habitat:\<newline>\<newline>'' @ concat (map (\<lambda>l. l @ ''\<newline>'') ls) @ ''\<newline>''"
    for ls
    unfolding write_habitat_def c by simp_all
  have "first_seen (map key_of as) = [''lion'', ''hyena'', ''zebra''] \<Longrightarrow>
      report_order (first_seen (map key_of as)) = [''hyena'', ''lion'', ''zebra'']"
    by (simp add: report_order_def habitat_order_def)
  then have "first_seen (map key_of as) = [''lion'', ''hyena'', ''zebra''] \<longrightarrow>
        files_after (process_zoo_data today fs no_dir cnts input_file names_file output_file) output_file =
          Some (''Hyena Habitat:\<newline>\<newline>'' @
                concat (map (\<lambda>l. l @ ''\<newline>'') (habitat_lines today cnts P ''hyena'' as)) @ ''\<newline>'' @
                ''Lion Habitat:\<newline>\<newline>'' @
                concat (map (\<lambda>l. l @ ''\<newline>'') (habitat_lines today cnts P ''lion'' as)) @ ''\<newline>'' @
                ''Zebra Habitat:\<newline>\<newline>'' @
                concat (map (\<lambda>l. l @ ''\<newline>'') (habitat_lines today cnts P ''zebra'' as)) @ ''\<newline>'')"
    unfolding f by (simp add: h)
  moreover from f have "files_after (process_zoo_data today fs no_dir cnts input_file names_file output_file)
      output_file =
       Some (concat (map (\<lambda>k. write_habitat k
                           (map (\<lambda>(i, a). report_line today cnts i (pool_name P k i) a)
                              (enumerate 0 (filter (\<lambda>a. key_of a = k) as))))
               (filter (\<lambda>k. k \<in> set (map key_of as)) [''hyena'', ''lion'', ''bear'', ''tiger''] @
                filter (\<lambda>k. k \<notin> set [''hyena'', ''lion'', ''bear'', ''tiger''])
                  (first_seen (map key_of as)))))"
    unfolding o g .
  ultimately show ?thesis by (rule conjI [rotated])
qed

theorem report_in_habitat_order_witness:
  "first_seen (map key_of (parsed (readlines arrivals_example))) = [''lion'', ''hyena'', ''zebra''] \<and>
   files_after (process_zoo_data today_example zoo_files none_missing fresh_counts
        ''arrivingAnimals.txt'' ''animalNames.txt'' ''zooPopulation.txt'') ''zooPopulation.txt'' =
     Some (''Hyena Habitat:\<newline>\<newline>'' @
        ''Hy01; Shenzi; birth date: 2014-09-21; brown color; male; 150 pounds; from Friguia Park, Tunisia; arrived 2026-11-03\<newline>'' @
        ''Hy02; Banzai; birth date: 2020-01-01; black color; female; 105 pounds; from Friguia Park, Tunisia; arrived 2026-11-03\<newline>'' @
        ''Hy03; Unnamed; birth date: 2023-12-21; tan color; female; 90 pounds; from Friguia Park, Tunisia; arrived 2026-11-03\<newline>'' @
        ''\<newline>'' @
        ''Lion Habitat:\<newline>\<newline>'' @
        ''Li01; Scar; birth date: 2022-03-21; tan color; female; 300 pounds; from Zanzibar, Tanzania; arrived 2026-11-03\<newline>'' @
        ''\<newline>'' @
        ''Zebra Habitat:\<newline>\<newline>'' @
        ''Ze01; Unnamed; birth date: 2024-06-21; striped color; male; 500 pounds; from Nairobi, Kenya; arrived 2026-11-03\<newline>'' @
        ''\<newline>'')"
proof -
  have i: "zoo_files ''arrivingAnimals.txt'' = Some arrivals_example"
    by (simp add: zoo_files_def)
  have w: "\<not> open_write_error none_missing ''zooPopulation.txt''"
    by (simp add: open_write_error_def none_missing_def)
  have "snd (run_lines today_example (readlines arrivals_example)
        \<lparr>species_counts = fresh_counts, species_names = pool_example, habitats = []\<rparr>) = None"
    by (rule run_arrivals)
  with load_names_zoo_files i w
  have r: "raised (process_zoo_data today_example zoo_files none_missing fresh_counts
        ''arrivingAnimals.txt'' ''animalNames.txt'' ''zooPopulation.txt'') = None"
    by (simp add: process_zoo_data_done)
  have o: "first_seen (map key_of (parsed (readlines arrivals_example))) =
      [''lion'', ''hyena'', ''zebra'']"
    unfolding parsed_arrivals by code_simp
  have e: "''Hyena Habitat:\<newline>\<newline>'' @
      concat (map (\<lambda>l. l @ ''\<newline>'') (habitat_lines today_example fresh_counts pool_example ''hyena''
         (parsed (readlines arrivals_example)))) @ ''\<newline>'' @
      ''Lion Habitat:\<newline>\<newline>'' @
      concat (map (\<lambda>l. l @ ''\<newline>'') (habitat_lines today_example fresh_counts pool_example ''lion''
         (parsed (readlines arrivals_example)))) @ ''\<newline>'' @
      ''Zebra Habitat:\<newline>\<newline>'' @
      concat (map (\<lambda>l. l @ ''\<newline>'') (habitat_lines today_example fresh_counts pool_example ''zebra''
         (parsed (readlines arrivals_example)))) @ ''\<newline>'' =
      ''Hyena Habitat:\<newline>\<newline>'' @
        ''Hy01; Shenzi; birth date: 2014-09-21; brown color; male; 150 pounds; from Friguia Park, Tunisia; arrived 2026-11-03\<newline>'' @
        ''Hy02; Banzai; birth date: 2020-01-01; black color; female; 105 pounds; from Friguia Park, Tunisia; arrived 2026-11-03\<newline>'' @
        ''Hy03; Unnamed; birth date: 2023-12-21; tan color; female; 90 pounds; from Friguia Park, Tunisia; arrived 2026-11-03\<newline>'' @
        ''\<newline>'' @
        ''Lion Habitat:\<newline>\<newline>'' @
        ''Li01; Scar; birth date: 2022-03-21; tan color; female; 300 pounds; from Zanzibar, Tanzania; arrived 2026-11-03\<newline>'' @
        ''\<newline>'' @
        ''Zebra Habitat:\<newline>\<newline>'' @
        ''Ze01; Unnamed; birth date: 2024-06-21; striped color; male; 500 pounds; from Nairobi, Kenya; arrived 2026-11-03\<newline>'' @
        ''\<newline>''"
    unfolding habitat_lines_def pool_name_def parsed_arrivals pool_example_lookup by code_simp
  from report_in_habitat_order [OF load_names_zoo_files i r w refl] o
  have "files_after (process_zoo_data today_example zoo_files none_missing fresh_counts
        ''arrivingAnimals.txt'' ''animalNames.txt'' ''zooPopulation.txt'') ''zooPopulation.txt'' =
     Some (''Hyena Habitat:\<newline>\<newline>'' @
      concat (map (\<lambda>l. l @ ''\<newline>'') (habitat_lines today_example fresh_counts pool_example ''hyena''
         (parsed (readlines arrivals_example)))) @ ''\<newline>'' @
      ''Lion Habitat:\<newline>\<newline>'' @
      concat (map (\<lambda>l. l @ ''\<newline>'') (habitat_lines today_example fresh_counts pool_example ''lion''
         (parsed (readlines arrivals_example)))) @ ''\<newline>'' @
      ''Zebra Habitat:\<newline>\<newline>'' @
      concat (map (\<lambda>l. l @ ''\<newline>'') (habitat_lines today_example fresh_counts pool_example ''zebra''
         (parsed (readlines arrivals_example)))) @ ''\<newline>'')"
    by blast
  then have "files_after (process_zoo_data today_example zoo_files none_missing fresh_counts
        ''arrivingAnimals.txt'' ''animalNames.txt'' ''zooPopulation.txt'') ''zooPopulation.txt'' =
     Some (''Hyena Habitat:\<newline>\<newline>'' @
        ''Hy01; Shenzi; birth date: 2014-09-21; brown color; male; 150 pounds; from Friguia Park, Tunisia; arrived 2026-11-03\<newline>'' @
        ''Hy02; Banzai; birth date: 2020-01-01; black color; female; 105 pounds; from Friguia Park, Tunisia; arrived 2026-11-03\<newline>'' @
        ''Hy03; Unnamed; birth date: 2023-12-21; tan color; female; 90 pounds; from Friguia Park, Tunisia; arrived 2026-11-03\<newline>'' @
        ''\<newline>'' @
        ''Lion Habitat:\<newline>\<newline>'' @
        ''Li01; Scar; birth date: 2022-03-21; tan color; female; 300 pounds; from Zanzibar, Tanzania; arrived 2026-11-03\<newline>'' @
        ''\<newline>'' @
        ''Zebra Habitat:\<newline>\<newline>'' @
        ''Ze01; Unnamed; birth date: 2024-06-21; striped color; male; 500 pounds; from Nairobi, Kenya; arrived 2026-11-03\<newline>'' @
        ''\<newline>'')"
    unfolding e .
  with o show ?thesis by (rule conjI)
qed

text \<open>
  Claim C7, as amended. When the names file does not exist, the Name Pool Loader prints one
  error and returns the empty pool instead of raising, and the run goes on. If moreover the
  input file exists, each of its non-blank lines parses and the output file can be opened,
  the run ends without an exception, having printed only that error, and writes the output
  file, in which every record carries the placeholder name "Unnamed"; the file is populated
  when the input has a non-blank line.
\<close>

theorem missing_names_file:
  "fs names_file = None \<Longrightarrow>
     load_names fs names_file = Inr (Map.empty, [''Error: '' @ names_file @ '' not found.'']) \<and>
     (fs input_file = Some content \<and>
      (\<forall>raw\<in>set (readlines content). py_strip raw \<noteq> [] \<longrightarrow> \<not> isl (parse_line (py_strip raw))) \<and>
      \<not> open_write_error no_dir output_file \<and> rs = parsed (readlines content) \<longrightarrow>
        raised (process_zoo_data today fs no_dir cnts input_file names_file output_file) = None \<and>
        printed (process_zoo_data today fs no_dir cnts input_file names_file output_file) =
          [''Error: '' @ names_file @ '' not found.''] \<and>
        files_after (process_zoo_data today fs no_dir cnts input_file names_file output_file)
            output_file =
          Some (concat (map (\<lambda>k. write_habitat k
                              (map (\<lambda>(i, a). report_line today cnts i ''Unnamed'' a)
                                 (enumerate 0 (of_key k rs))))
                  (report_order (first_seen (map key_of rs))))) \<and>
        ((\<exists>raw\<in>set (readlines content). py_strip raw \<noteq> []) \<longrightarrow>
           files_after (process_zoo_data today fs no_dir cnts input_file names_file output_file)
               output_file \<noteq> Some []))"
proof (rule conjI)
  assume n: "fs names_file = None"
  then show l: "load_names fs names_file =
      Inr (Map.empty, [''Error: '' @ names_file @ '' not found.''])"
    by (rule load_names_missing)
  show "fs input_file = Some content \<and>
      (\<forall>raw\<in>set (readlines content). py_strip raw \<noteq> [] \<longrightarrow> \<not> isl (parse_line (py_strip raw))) \<and>
      \<not> open_write_error no_dir output_file \<and> rs = parsed (readlines content) \<longrightarrow>
        raised (process_zoo_data today fs no_dir cnts input_file names_file output_file) = None \<and>
        printed (process_zoo_data today fs no_dir cnts input_file names_file output_file) =
          [''Error: '' @ names_file @ '' not found.''] \<and>
        files_after (process_zoo_data today fs no_dir cnts input_file names_file output_file)
            output_file =
          Some (concat (map (\<lambda>k. write_habitat k
                              (map (\<lambda>(i, a). report_line today cnts i ''Unnamed'' a)
                                 (enumerate 0 (of_key k rs))))
                  (report_order (first_seen (map key_of rs))))) \<and>
        ((\<exists>raw\<in>set (readlines content). py_strip raw \<noteq> []) \<longrightarrow>
           files_after (process_zoo_data today fs no_dir cnts input_file names_file output_file)
               output_file \<noteq> Some [])"
  proof
    assume h: "fs input_file = Some content \<and>
      (\<forall>raw\<in>set (readlines content). py_strip raw \<noteq> [] \<longrightarrow> \<not> isl (parse_line (py_strip raw))) \<and>
      \<not> open_write_error no_dir output_file \<and> rs = parsed (readlines content)"
    then have i: "fs input_file = Some content"
      and p: "\<forall>raw\<in>set (readlines content). py_strip raw \<noteq> [] \<longrightarrow> \<not> isl (parse_line (py_strip raw))"
      and w: "\<not> open_write_error no_dir output_file"
      and a: "rs = parsed (readlines content)"
      by blast+
    from p have "snd (run_lines today (readlines content)
               \<lparr>species_counts = cnts, species_names = Map.empty, habitats = []\<rparr>) = None"
      by (rule run_lines_ok)
    from l i this w
    have d: "process_zoo_data today fs no_dir cnts input_file names_file output_file =
       \<lparr>files_after = fs(output_file \<mapsto>
            concat (map (\<lambda>k. write_habitat k (habitat_lines today cnts Map.empty k rs))
                      (report_order (first_seen (map key_of rs))))),
        counts_after = id_calls (map species rs) cnts,
        printed = [''Error: '' @ names_file @ '' not found.''], raised = None\<rparr>"
      unfolding a by (rule process_zoo_data_done)
    have f: "files_after (process_zoo_data today fs no_dir cnts input_file names_file output_file)
            output_file =
         Some (concat (map (\<lambda>k. write_habitat k
                             (map (\<lambda>(i, a). report_line today cnts i ''Unnamed'' a)
                                (enumerate 0 (of_key k rs))))
                 (report_order (first_seen (map key_of rs)))))"
      unfolding d by (simp add: habitat_lines_no_pool)
    have "files_after (process_zoo_data today fs no_dir cnts input_file names_file output_file)
            output_file \<noteq> Some []" if "\<exists>raw\<in>set (readlines content). py_strip raw \<noteq> []"
    proof -
      from that p obtain raw where "raw \<in> set (readlines content)" "py_strip raw \<noteq> []"
        "\<not> isl (parse_line (py_strip raw))" by blast
      then have "rs \<noteq> []" unfolding a by (rule parsed_nonempty)
      then have "concat (map (\<lambda>k. write_habitat k
                             (map (\<lambda>(i, a). report_line today cnts i ''Unnamed'' a)
                                (enumerate 0 (of_key k rs))))
                 (report_order (first_seen (map key_of rs)))) \<noteq> []"
        by (rule report_nonempty)
      then show ?thesis unfolding f by (simp only: option.inject not_False_eq_True)
    qed
    with f show "raised (process_zoo_data today fs no_dir cnts input_file names_file output_file) = None \<and>
        printed (process_zoo_data today fs no_dir cnts input_file names_file output_file) =
          [''Error: '' @ names_file @ '' not found.''] \<and>
        files_after (process_zoo_data today fs no_dir cnts input_file names_file output_file)
            output_file =
          Some (concat (map (\<lambda>k. write_habitat k
                              (map (\<lambda>(i, a). report_line today cnts i ''Unnamed'' a)
                                 (enumerate 0 (of_key k rs))))
                  (report_order (first_seen (map key_of rs))))) \<and>
        ((\<exists>raw\<in>set (readlines content). py_strip raw \<noteq> []) \<longrightarrow>
           files_after (process_zoo_data today fs no_dir cnts input_file names_file output_file)
               output_file \<noteq> Some [])"
      unfolding d by simp
  qed
qed

theorem missing_names_file_witness:
  "printed (process_zoo_data today_example arrivals_only none_missing fresh_counts
        ''arrivingAnimals.txt'' ''animalNames.txt'' ''zooPopulation.txt'') = [''Error: animalNames.txt not found.''] \<and>
   raised (process_zoo_data today_example arrivals_only none_missing fresh_counts
        ''arrivingAnimals.txt'' ''animalNames.txt'' ''zooPopulation.txt'') = None \<and>
   files_after (process_zoo_data today_example arrivals_only none_missing fresh_counts
        ''arrivingAnimals.txt'' ''animalNames.txt'' ''zooPopulation.txt'') ''zooPopulation.txt'' =
     Some (''Hyena Habitat:\<newline>\<newline>'' @
        ''Hy01; Unnamed; birth date: 2014-09-21; brown color; male; 150 pounds; from Friguia Park, Tunisia; arrived 2026-11-03\<newline>'' @
        ''Hy02; Unnamed; birth date: 2020-01-01; black color; female; 105 pounds; from Friguia Park, Tunisia; arrived 2026-11-03\<newline>'' @
        ''Hy03; Unnamed; birth date: 2023-12-21; tan color; female; 90 pounds; from Friguia Park, Tunisia; arrived 2026-11-03\<newline>'' @
        ''\<newline>'' @
        ''Lion Habitat:\<newline>\<newline>'' @
        ''Li01; Unnamed; birth date: 2022-03-21; tan color; female; 300 pounds; from Zanzibar, Tanzania; arrived 2026-11-03\<newline>'' @
        ''\<newline>'' @
        ''Zebra Habitat:\<newline>\<newline>'' @
        ''Ze01; Unnamed; birth date: 2024-06-21; striped color; male; 500 pounds; from Nairobi, Kenya; arrived 2026-11-03\<newline>'' @
        ''\<newline>'')"
proof -
  have n: "arrivals_only ''animalNames.txt'' = None"
    by (simp add: arrivals_only_def)
  have i: "arrivals_only ''arrivingAnimals.txt'' = Some arrivals_example"
    by (simp add: arrivals_only_def)
  note p = arrivals_all_parse
  have e: "concat (map (\<lambda>k. write_habitat k
                           (map (\<lambda>(i, a). report_line today_example fresh_counts i ''Unnamed'' a)
                              (enumerate 0 (of_key k (parsed (readlines arrivals_example))))))
               (report_order (first_seen (map key_of (parsed (readlines arrivals_example)))))) =
      ''Hyena Habitat:\<newline>\<newline>'' @
        ''Hy01; Unnamed; birth date: 2014-09-21; brown color; male; 150 pounds; from Friguia Park, Tunisia; arrived 2026-11-03\<newline>'' @
        ''Hy02; Unnamed; birth date: 2020-01-01; black color; female; 105 pounds; from Friguia Park, Tunisia; arrived 2026-11-03\<newline>'' @
        ''Hy03; Unnamed; birth date: 2023-12-21; tan color; female; 90 pounds; from Friguia Park, Tunisia; arrived 2026-11-03\<newline>'' @
        ''\<newline>'' @
        ''Lion Habitat:\<newline>\<newline>'' @
        ''Li01; Unnamed; birth date: 2022-03-21; tan color; female; 300 pounds; from Zanzibar, Tanzania; arrived 2026-11-03\<newline>'' @
        ''\<newline>'' @
        ''Zebra Habitat:\<newline>\<newline>'' @
        ''Ze01; Unnamed; birth date: 2024-06-21; striped color; male; 500 pounds; from Nairobi, Kenya; arrived 2026-11-03\<newline>'' @
        ''\<newline>''"
    unfolding parsed_arrivals by code_simp
  have w: "\<not> open_write_error none_missing ''zooPopulation.txt''"
    by (simp add: open_write_error_def none_missing_def)
  from missing_names_file [where fs = arrivals_only and names_file = "''animalNames.txt''"
      and input_file = "''arrivingAnimals.txt''" and content = arrivals_example
      and no_dir = none_missing and rs = "parsed (readlines arrivals_example)"
      and today = today_example and cnts = fresh_counts and output_file = "''zooPopulation.txt''",
      OF n] i p w
  have t: "raised (process_zoo_data today_example arrivals_only none_missing fresh_counts
        ''arrivingAnimals.txt'' ''animalNames.txt'' ''zooPopulation.txt'') = None \<and>
        printed (process_zoo_data today_example arrivals_only none_missing fresh_counts
        ''arrivingAnimals.txt'' ''animalNames.txt'' ''zooPopulation.txt'') =
          [''Error: '' @ ''animalNames.txt'' @ '' not found.''] \<and>
        files_after (process_zoo_data today_example arrivals_only none_missing fresh_counts
        ''arrivingAnimals.txt'' ''animalNames.txt'' ''zooPopulation.txt'')
            ''zooPopulation.txt'' =
          Some (concat (map (\<lambda>k. write_habitat k
                           (map (\<lambda>(i, a). report_line today_example fresh_counts i ''Unnamed'' a)
                              (enumerate 0 (of_key k (parsed (readlines arrivals_example))))))
               (report_order (first_seen (map key_of (parsed (readlines arrivals_example)))))))"
    by blast
  from t have 1: "printed (process_zoo_data today_example arrivals_only none_missing fresh_counts
        ''arrivingAnimals.txt'' ''animalNames.txt'' ''zooPopulation.txt'') = [''Error: animalNames.txt not found.'']"
    by simp
  from t have 2: "raised (process_zoo_data today_example arrivals_only none_missing fresh_counts
        ''arrivingAnimals.txt'' ''animalNames.txt'' ''zooPopulation.txt'') = None"
    by blast
  from t have 3: "files_after (process_zoo_data today_example arrivals_only none_missing fresh_counts
        ''arrivingAnimals.txt'' ''animalNames.txt'' ''zooPopulation.txt'') ''zooPopulation.txt'' =
     Some (concat (map (\<lambda>k. write_habitat k
                           (map (\<lambda>(i, a). report_line today_example fresh_counts i ''Unnamed'' a)
                              (enumerate 0 (of_key k (parsed (readlines arrivals_example))))))
               (report_order (first_seen (map key_of (parsed (readlines arrivals_example)))))))"
    by blast
  from 1 2 3 show ?thesis unfolding e by blast
qed

text \<open>
  Claim C7 as stated fails: with no names file and no input file the run writes no output
  file, and with no names file and an input file of blank lines it writes an empty one.
\<close>

theorem missing_names_no_report:
  "no_files ''animalNames.txt'' = None \<and>
   files_after (process_zoo_data today_example no_files none_missing fresh_counts
      ''arrivingAnimals.txt'' ''animalNames.txt'' ''zooPopulation.txt'') ''zooPopulation.txt'' = None \<and>
   blank_input ''animalNames.txt'' = None \<and>
   files_after (process_zoo_data today_example blank_input none_missing fresh_counts
      ''arrivingAnimals.txt'' ''animalNames.txt'' ''zooPopulation.txt'') ''zooPopulation.txt'' =
     Some []"
proof (intro conjI)
  show "no_files ''animalNames.txt'' = None"
    by (simp add: no_files_def)
  show "files_after (process_zoo_data today_example no_files none_missing fresh_counts
      ''arrivingAnimals.txt'' ''animalNames.txt'' ''zooPopulation.txt'') ''zooPopulation.txt'' = None"
    by (simp add: no_files_def process_zoo_data_def load_names_def)
  show "blank_input ''animalNames.txt'' = None"
    by (simp add: blank_input_def)
  show "files_after (process_zoo_data today_example blank_input none_missing fresh_counts
      ''arrivingAnimals.txt'' ''animalNames.txt'' ''zooPopulation.txt'') ''zooPopulation.txt'' =
     Some []"
    by code_simp
qed

end
